theory Spec2Isabelle
  imports Complex_Main "HOL-Library.Word" "HOL-Library.Sublist"
begin

section \<open>JavaScript strings\<close>

text \<open>
  A JavaScript string is a sequence of UTF-16 code units; \<open>length\<close>, \<open>slice\<close>,
  \<open>startsWith\<close> and \<open>split\<close> all count code units. A code unit is a 16-bit word,
  and \<open>js\<close> writes an ASCII literal of the source as such a sequence.
\<close>

type_synonym jschar = "16 word"
type_synonym jsstring = "jschar list"
type_synonym byte = "8 word"

definition js :: "string \<Rightarrow> jsstring" where
  "js s = map of_char s"

definition bytes :: "string \<Rightarrow> byte list" where
  "bytes s = map of_char s"

text \<open>\<open>s.startsWith(p)\<close>\<close>

definition startsWith :: "jsstring \<Rightarrow> jsstring \<Rightarrow> bool" where
  "startsWith s p = (take (length p) s = p)"

text \<open>
  \<open>String.prototype.trim\<close> strips the code units of WhiteSpace and LineTerminator
  (ECMA-262, 12.2 and 12.3) from both ends.
\<close>

definition isWhiteSpace :: "jschar \<Rightarrow> bool" where
  "isWhiteSpace c =
     (c = 0x09 \<or> c = 0x0A \<or> c = 0x0B \<or> c = 0x0C \<or> c = 0x0D \<or> c = 0x20 \<or> c = 0xA0
      \<or> c = 0x1680 \<or> (0x2000 \<le> c \<and> c \<le> 0x200A) \<or> c = 0x2028 \<or> c = 0x2029
      \<or> c = 0x202F \<or> c = 0x205F \<or> c = 0x3000 \<or> c = 0xFEFF)"

definition trim :: "jsstring \<Rightarrow> jsstring" where
  "trim s = rev (dropWhile isWhiteSpace (rev (dropWhile isWhiteSpace s)))"

text \<open>\<open>s.split('\n')\<close>: the pieces between line feeds, always at least one piece.\<close>

fun split_lf :: "jsstring \<Rightarrow> jsstring list" where
  "split_lf [] = [[]]"
| "split_lf (c # s) =
     (if c = 0x0A then [] # split_lf s
      else (case split_lf s of l # ls \<Rightarrow> (c # l) # ls | [] \<Rightarrow> [[c]]))"

text \<open>The decimal digits of a non-negative integer, as a template literal prints it.\<close>

fun showNat :: "nat \<Rightarrow> jsstring" where
  "showNat n =
     (if n < 10 then [0x30 + of_nat n]
      else showNat (n div 10) @ [0x30 + of_nat (n mod 10)])"

declare showNat.simps [simp del]

section \<open>JSON values and \<open>JSON.parse\<close>\<close>

text \<open>
  The values \<open>JSON.parse\<close> can return. A number keeps its source text: its value is a
  double, whose printing is left to the platform (see \<open>platform\<close> below). An object
  keeps its members in source order; a later member of the same name wins.
\<close>

datatype json =
    JNull
  | JBool bool
  | JNumber jsstring
  | JString jsstring
  | JArray "json list"
  | JObject "(jsstring \<times> json) list"

datatype token =
    LBrace | RBrace | LBracket | RBracket | Colon | Comma
  | TString jsstring | TNumber jsstring | TTrue | TFalse | TNull

definition isJsonWhiteSpace :: "jschar \<Rightarrow> bool" where
  "isJsonWhiteSpace c = (c = 0x20 \<or> c = 0x09 \<or> c = 0x0A \<or> c = 0x0D)"

definition isDigit :: "jschar \<Rightarrow> bool" where
  "isDigit c = (0x30 \<le> c \<and> c \<le> 0x39)"

definition hexValue :: "jschar \<Rightarrow> nat option" where
  "hexValue c =
     (if 0x30 \<le> c \<and> c \<le> 0x39 then Some (unat c - 0x30)
      else if 0x41 \<le> c \<and> c \<le> 0x46 then Some (unat c - 0x41 + 10)
      else if 0x61 \<le> c \<and> c \<le> 0x66 then Some (unat c - 0x61 + 10)
      else None)"

text \<open>The single-character escapes \<open>\" \\ \/ \b \f \n \r \t\<close>.\<close>

definition unescape :: "jschar \<Rightarrow> jschar option" where
  "unescape e =
     (if e = 0x22 then Some 0x22
      else if e = 0x5C then Some 0x5C
      else if e = 0x2F then Some 0x2F
      else if e = 0x62 then Some 0x08
      else if e = 0x66 then Some 0x0C
      else if e = 0x6E then Some 0x0A
      else if e = 0x72 then Some 0x0D
      else if e = 0x74 then Some 0x09
      else None)"

definition hex4 :: "jschar \<Rightarrow> jschar \<Rightarrow> jschar \<Rightarrow> jschar \<Rightarrow> jschar option" where
  "hex4 a b c d =
     (case (hexValue a, hexValue b, hexValue c, hexValue d) of
        (Some w, Some x, Some y, Some z) \<Rightarrow> Some (of_nat (((w * 16 + x) * 16 + y) * 16 + z))
      | _ \<Rightarrow> None)"

text \<open>
  The characters of a string literal after its opening quote, up to the closing quote:
  the string's value and the input that follows it.
\<close>

fun lexString :: "jsstring \<Rightarrow> (jsstring \<times> jsstring) option" where
  "lexString [] = None"
| "lexString (c # r) =
     (if c = 0x22 then Some ([], r)
      else if c = 0x5C then
        (case r of
           [] \<Rightarrow> None
         | e # r' \<Rightarrow>
             if e = 0x75 then
               (case r' of
                  h1 # h2 # h3 # h4 # r'' \<Rightarrow>
                    (case hex4 h1 h2 h3 h4 of
                       None \<Rightarrow> None
                     | Some u \<Rightarrow> map_option (\<lambda>(s, rest). (u # s, rest)) (lexString r''))
                | _ \<Rightarrow> None)
             else
               (case unescape e of
                  None \<Rightarrow> None
                | Some u \<Rightarrow> map_option (\<lambda>(s, rest). (u # s, rest)) (lexString r')))
      else if c < 0x20 then None
      else map_option (\<lambda>(s, rest). (c # s, rest)) (lexString r))"

text \<open>
  A number: \<open>-? (0 | [1-9][0-9]*) (. [0-9]+)? ([eE] [+-]? [0-9]+)?\<close>; its text and
  the input that follows it.
\<close>

definition lexFraction :: "jsstring \<Rightarrow> (jsstring \<times> jsstring) option" where
  "lexFraction r =
     (case r of
        [] \<Rightarrow> Some ([], r)
      | c # r' \<Rightarrow>
          if c = 0x2E then
            (if takeWhile isDigit r' = [] then None
             else Some (c # takeWhile isDigit r', dropWhile isDigit r'))
          else Some ([], r))"

definition lexExponent :: "jsstring \<Rightarrow> (jsstring \<times> jsstring) option" where
  "lexExponent r =
     (case r of
        [] \<Rightarrow> Some ([], r)
      | c # r' \<Rightarrow>
          if c = 0x65 \<or> c = 0x45 then
            (let sg = (case r' of [] \<Rightarrow> [] | x # _ \<Rightarrow> if x = 0x2B \<or> x = 0x2D then [x] else []);
                 r'' = drop (length sg) r'
             in if takeWhile isDigit r'' = [] then None
                else Some (c # sg @ takeWhile isDigit r'', dropWhile isDigit r''))
          else Some ([], r))"

definition lexInteger :: "jsstring \<Rightarrow> (jsstring \<times> jsstring) option" where
  "lexInteger s =
     (case s of
        [] \<Rightarrow> None
      | d # r \<Rightarrow>
          if d = 0x30 then Some ([d], r)
          else if isDigit d then Some (d # takeWhile isDigit r, dropWhile isDigit r)
          else None)"

definition lexNumber :: "jsstring \<Rightarrow> (jsstring \<times> jsstring) option" where
  "lexNumber s =
     (case s of
        [] \<Rightarrow> None
      | c # r \<Rightarrow>
          (case lexInteger (if c = 0x2D then r else s) of
             None \<Rightarrow> None
           | Some (ip, r2) \<Rightarrow>
               (case lexFraction r2 of
                  None \<Rightarrow> None
                | Some (fp, r3) \<Rightarrow>
                    (case lexExponent r3 of
                       None \<Rightarrow> None
                     | Some (ep, r4) \<Rightarrow>
                         Some ((if c = 0x2D then [c] else []) @ ip @ fp @ ep, r4)))))"

lemma lexString_length: "lexString s = Some (v, rest) \<Longrightarrow> length rest < length s"
proof (induction s arbitrary: v rest rule: lexString.induct)
  case 1
  then show ?case by simp
next
  case (2 c r)
  then show ?case
    by (fastforce split: if_splits list.splits option.splits)
qed

lemma length_dropWhile_bounds:
  "length (dropWhile P xs) \<le> length xs"
  "length (dropWhile P xs) \<le> Suc (length xs)"
  "length (dropWhile P xs) \<le> Suc (Suc (length xs))"
  "length (dropWhile P xs) < Suc (length xs)"
  "length (dropWhile P xs) < Suc (Suc (length xs))"
  using length_dropWhile_le [of P xs] by simp_all

lemma lexFraction_length: "lexFraction r = Some (v, rest) \<Longrightarrow> length rest \<le> length r"
  by (auto simp: lexFraction_def length_dropWhile_bounds split: list.splits if_splits)

lemma lexExponent_length: "lexExponent r = Some (v, rest) \<Longrightarrow> length rest \<le> length r"
  by (auto simp: lexExponent_def Let_def length_dropWhile_bounds split: list.splits if_splits)

lemma lexInteger_length: "lexInteger s = Some (v, rest) \<Longrightarrow> length rest < length s"
  by (auto simp: lexInteger_def length_dropWhile_bounds split: list.splits if_splits)

lemma lexNumber_length:
  assumes "lexNumber s = Some (v, rest)"
  shows "length rest < length s"
proof (cases s)
  case Nil
  with assms show ?thesis by (simp add: lexNumber_def)
next
  case (Cons c r)
  let ?s' = "if c = 0x2D then r else s"
  from assms Cons obtain ip r2 fp r3 ep where
    i: "lexInteger ?s' = Some (ip, r2)" and
    f: "lexFraction r2 = Some (fp, r3)" and
    e: "lexExponent r3 = Some (ep, rest)"
    by (auto simp: lexNumber_def split: option.splits)
  have "length rest \<le> length r3" using e by (rule lexExponent_length)
  also have "\<dots> \<le> length r2" using f by (rule lexFraction_length)
  also have "\<dots> < length ?s'" using i by (rule lexInteger_length)
  also have "\<dots> \<le> length s" using Cons by simp
  finally show ?thesis .
qed

text \<open>The token sequence of a JSON text, or \<open>None\<close> where no token begins.\<close>

function lex :: "jsstring \<Rightarrow> token list option" where
  "lex [] = Some []"
| "lex (c # r) =
     (if isJsonWhiteSpace c then lex r
      else if c = 0x7B then map_option (Cons LBrace) (lex r)
      else if c = 0x7D then map_option (Cons RBrace) (lex r)
      else if c = 0x5B then map_option (Cons LBracket) (lex r)
      else if c = 0x5D then map_option (Cons RBracket) (lex r)
      else if c = 0x3A then map_option (Cons Colon) (lex r)
      else if c = 0x2C then map_option (Cons Comma) (lex r)
      else if c = 0x22 then
        (case lexString r of
           None \<Rightarrow> None
         | Some (v, rest) \<Rightarrow> map_option (Cons (TString v)) (lex rest))
      else if c = 0x2D \<or> isDigit c then
        (case lexNumber (c # r) of
           None \<Rightarrow> None
         | Some (v, rest) \<Rightarrow> map_option (Cons (TNumber v)) (lex rest))
      else if startsWith (c # r) (js ''true'') then map_option (Cons TTrue) (lex (drop 3 r))
      else if startsWith (c # r) (js ''false'') then map_option (Cons TFalse) (lex (drop 4 r))
      else if startsWith (c # r) (js ''null'') then map_option (Cons TNull) (lex (drop 3 r))
      else None)"
  by pat_completeness auto
termination
  by (relation "measure length")
     (auto dest: lexString_length lexNumber_length)

text \<open>
  The grammar over tokens. Each function returns the value it read and the tokens after
  it. \<open>parseElements\<close> reads the elements of a non-empty array up to its closing
  bracket, \<open>parseMembers\<close> the members of a non-empty object up to its closing brace.
  The tests \<open>length r' < length ts\<close> never fail (\<open>parseValue_length\<close> below);
  they make the recursion visibly well-founded.
\<close>

function parseValue :: "token list \<Rightarrow> (json \<times> token list) option"
  and parseElements :: "token list \<Rightarrow> (json list \<times> token list) option"
  and parseMembers :: "token list \<Rightarrow> ((jsstring \<times> json) list \<times> token list) option"
where
  "parseValue [] = None"
| "parseValue (t # ts) =
     (case t of
        TString v \<Rightarrow> Some (JString v, ts)
      | TNumber v \<Rightarrow> Some (JNumber v, ts)
      | TTrue \<Rightarrow> Some (JBool True, ts)
      | TFalse \<Rightarrow> Some (JBool False, ts)
      | TNull \<Rightarrow> Some (JNull, ts)
      | LBracket \<Rightarrow>
          (case ts of
             RBracket # r \<Rightarrow> Some (JArray [], r)
           | _ \<Rightarrow> map_option (\<lambda>(vs, r). (JArray vs, r)) (parseElements ts))
      | LBrace \<Rightarrow>
          (case ts of
             RBrace # r \<Rightarrow> Some (JObject [], r)
           | _ \<Rightarrow> map_option (\<lambda>(ms, r). (JObject ms, r)) (parseMembers ts))
      | _ \<Rightarrow> None)"
| "parseElements ts =
     (case parseValue ts of
        None \<Rightarrow> None
      | Some (v, r) \<Rightarrow>
          (case r of
             Comma # r' \<Rightarrow>
               (if length r' < length ts
                then map_option (\<lambda>(vs, r''). (v # vs, r'')) (parseElements r')
                else None)
           | RBracket # r' \<Rightarrow> Some ([v], r')
           | _ \<Rightarrow> None))"
| "parseMembers ts =
     (case ts of
        TString k # Colon # r \<Rightarrow>
          (case parseValue r of
             None \<Rightarrow> None
           | Some (v, r1) \<Rightarrow>
               (case r1 of
                  Comma # r2 \<Rightarrow>
                    (if length r2 < length ts
                     then map_option (\<lambda>(ms, r3). ((k, v) # ms, r3)) (parseMembers r2)
                     else None)
                | RBrace # r2 \<Rightarrow> Some ([(k, v)], r2)
                | _ \<Rightarrow> None))
      | _ \<Rightarrow> None)"
  by pat_completeness auto
termination
  by (relation "measure (\<lambda>x. case x of
         Inl ts \<Rightarrow> 2 * length ts
       | Inr (Inl ts) \<Rightarrow> 2 * length ts + 1
       | Inr (Inr ts) \<Rightarrow> 2 * length ts + 1)")
     auto

declare parseElements.simps [simp del] parseMembers.simps [simp del]

lemma parse_lengths:
  "length ts = n \<Longrightarrow>
     (\<forall>v r. parseValue ts = Some (v, r) \<longrightarrow> length r < length ts)
   \<and> (\<forall>vs r. parseElements ts = Some (vs, r) \<longrightarrow> length r < length ts)
   \<and> (\<forall>ms r. parseMembers ts = Some (ms, r) \<longrightarrow> length r < length ts)"
proof (induction n arbitrary: ts rule: less_induct)
  case (less n)
  have elems: "length r < length us" if "parseElements us = Some (vs, r)" "length us < n" for us vs r
    using less.IH [OF that(2) refl] that(1) by blast
  have membs: "length r < length us" if "parseMembers us = Some (ms, r)" "length us < n" for us ms r
    using less.IH [OF that(2) refl] that(1) by blast
  have vals: "length r < length us" if "parseValue us = Some (v, r)" "length us < n" for us v r
    using less.IH [OF that(2) refl] that(1) by blast
  have V: "length r < length ts" if pv: "parseValue ts = Some (v, r)" for v r
  proof (cases ts)
    case Nil
    with pv show ?thesis by simp
  next
    case (Cons t ts')
    then have n: "length ts' < n" using less.prems by auto
    show ?thesis
    proof (cases t)
      case LBracket
      show ?thesis
      proof (cases "\<exists>rest. ts' = RBracket # rest")
        case True
        with pv Cons LBracket show ?thesis by auto
      next
        case False
        with pv Cons LBracket obtain vs where "parseElements ts' = Some (vs, r)"
          by (auto split: list.splits token.splits)
        from elems [OF this n] Cons show ?thesis by simp
      qed
    next
      case LBrace
      show ?thesis
      proof (cases "\<exists>rest. ts' = RBrace # rest")
        case True
        with pv Cons LBrace show ?thesis by auto
      next
        case False
        with pv Cons LBrace obtain ms where "parseMembers ts' = Some (ms, r)"
          by (auto split: list.splits token.splits)
        from membs [OF this n] Cons show ?thesis by simp
      qed
    qed (use pv Cons in auto)
  qed
  have E: "length r < length ts" if pe: "parseElements ts = Some (vs, r)" for vs r
  proof -
    from pe obtain v r0 where pv: "parseValue ts = Some (v, r0)"
      by (subst (asm) parseElements.simps) (auto split: option.splits)
    have r0: "length r0 < length ts" using V [OF pv] .
    from pe pv have "(\<exists>r1 vs'. r0 = Comma # r1 \<and> parseElements r1 = Some (vs', r)) \<or> r0 = RBracket # r"
      by (subst (asm) parseElements.simps)
         (auto split: option.splits list.splits token.splits if_splits)
    then show ?thesis
    proof
      assume "\<exists>r1 vs'. r0 = Comma # r1 \<and> parseElements r1 = Some (vs', r)"
      then obtain r1 vs' where c: "r0 = Comma # r1" and p: "parseElements r1 = Some (vs', r)"
        by blast
      have "length r1 < n" using c r0 less.prems by simp
      from elems [OF p this] c r0 show ?thesis by simp
    next
      assume "r0 = RBracket # r"
      with r0 show ?thesis by simp
    qed
  qed
  have M: "length r < length ts" if pm: "parseMembers ts = Some (ms, r)" for ms r
  proof -
    from pm obtain k us where ts: "ts = TString k # Colon # us"
      by (subst (asm) parseMembers.simps) (auto split: list.splits token.splits)
    then have us: "length us < n" using less.prems by auto
    from pm ts obtain v r1 where pv: "parseValue us = Some (v, r1)"
      by (subst (asm) parseMembers.simps) (auto split: option.splits)
    have r1: "length r1 < length us" using vals [OF pv us] .
    from pm ts pv have "(\<exists>r2 ms'. r1 = Comma # r2 \<and> parseMembers r2 = Some (ms', r)) \<or> r1 = RBrace # r"
      by (subst (asm) parseMembers.simps)
         (auto split: option.splits list.splits token.splits if_splits)
    then show ?thesis
    proof
      assume "\<exists>r2 ms'. r1 = Comma # r2 \<and> parseMembers r2 = Some (ms', r)"
      then obtain r2 ms' where c: "r1 = Comma # r2" and p: "parseMembers r2 = Some (ms', r)"
        by blast
      have "length r2 < n" using c r1 us by simp
      from membs [OF p this] c r1 ts show ?thesis by simp
    next
      assume "r1 = RBrace # r"
      with r1 ts show ?thesis by simp
    qed
  qed
  from V E M show ?case by blast
qed

lemma parseValue_length: "parseValue ts = Some (v, r) \<Longrightarrow> length r < length ts"
  using parse_lengths [OF refl, of ts] by blast

text \<open>\<open>JSON.parse(text)\<close>: one value and nothing after it; \<open>None\<close> is the SyntaxError.\<close>

definition JSON_parse :: "jsstring \<Rightarrow> json option" where
  "JSON_parse text =
     (case lex text of
        None \<Rightarrow> None
      | Some ts \<Rightarrow>
          (case parseValue ts of
             Some (v, []) \<Rightarrow> Some v
           | _ \<Rightarrow> None))"

section \<open>Errors and the platform\<close>

text \<open>
  What a statement can throw. \<open>ApiError st\<close> is the source's own
  \<open>throw new Error(`API Error: ${response.status}`)\<close>; \<open>TypeError\<close> and
  \<open>SyntaxError\<close> are raised by the language (a property read on \<open>null\<close> or
  \<open>undefined\<close>, \<open>JSON.parse\<close>), \<open>TransportError\<close> by \<open>fetch\<close> and the body
  reader. \<open>NotFoundError\<close> is named by the specification; no statement of the source
  raises it.
\<close>

datatype error = ApiError nat | TypeError | SyntaxError | TransportError | NotFoundError

text \<open>
  The parts of the JavaScript platform the session engine calls and whose results the
  source does not fix: UTF-8 decoding of a byte chunk (\<open>new TextDecoder().decode\<close>),
  the double a JSON number denotes (whether it is zero, and how it prints), and the
  \<open>message\<close> text of the errors the platform raises.
\<close>

record platform =
  decode :: "byte list \<Rightarrow> jsstring"
  numberIsZero :: "jsstring \<Rightarrow> bool"
  numberToString :: "jsstring \<Rightarrow> jsstring"
  platformMessage :: "error \<Rightarrow> jsstring"

text \<open>\<open>error.message\<close>\<close>

definition message :: "platform \<Rightarrow> error \<Rightarrow> jsstring" where
  "message pf e =
     (case e of
        ApiError st \<Rightarrow> js ''API Error: '' @ showNat st
      | _ \<Rightarrow> platformMessage pf e)"

section \<open>Reading properties of parsed JSON\<close>

text \<open>
  \<open>v[k]\<close> for a value \<open>v\<close> other than \<open>null\<close> and \<open>undefined\<close>, for the keys the
  source reads (\<open>choices\<close>, \<open>0\<close>, \<open>delta\<close>, \<open>message\<close>, \<open>content\<close>; none of them
  is a built-in property of arrays, strings, numbers or booleans). \<open>None\<close> is
  \<open>undefined\<close>.
\<close>

fun member :: "json \<Rightarrow> jsstring \<Rightarrow> json option" where
  "member (JObject ms) k = map_of (rev ms) k"
| "member (JArray xs) k =
     (if k = js ''0'' then (case xs of [] \<Rightarrow> None | x # _ \<Rightarrow> Some x) else None)"
| "member (JString v) k =
     (if k = js ''0'' then (case v of [] \<Rightarrow> None | c # _ \<Rightarrow> Some (JString [c])) else None)"
| "member _ k = None"

text \<open>\<open>v.k\<close>: a TypeError on \<open>null\<close>.\<close>

definition dot :: "json \<Rightarrow> jsstring \<Rightarrow> error + json option" where
  "dot v k = (if v = JNull then Inl TypeError else Inr (member v k))"

text \<open>\<open>v?.k\<close> and \<open>v?.[k]\<close>: \<open>undefined\<close> on \<open>null\<close> and \<open>undefined\<close>.\<close>

definition optDot :: "json option \<Rightarrow> jsstring \<Rightarrow> json option" where
  "optDot v k = (case v of None \<Rightarrow> None | Some x \<Rightarrow> if x = JNull then None else member x k)"

text \<open>Truthiness, and \<open>v || d\<close>.\<close>

definition truthy :: "platform \<Rightarrow> json option \<Rightarrow> bool" where
  "truthy pf v =
     (case v of
        None \<Rightarrow> False
      | Some JNull \<Rightarrow> False
      | Some (JBool b) \<Rightarrow> b
      | Some (JNumber n) \<Rightarrow> \<not> numberIsZero pf n
      | Some (JString t) \<Rightarrow> t \<noteq> []
      | Some _ \<Rightarrow> True)"

definition orElse :: "platform \<Rightarrow> json option \<Rightarrow> json \<Rightarrow> json" where
  "orElse pf v d = (case v of None \<Rightarrow> d | Some x \<Rightarrow> if truthy pf v then x else d)"

text \<open>
  \<open>'' + v\<close>, the string a value contributes to a concatenation. An array prints
  its elements joined by commas, \<open>null\<close> elements as nothing; an object prints as
  \<open>[object Object]\<close>, unless it has a member named \<open>toString\<close>, which shadows the
  inherited method with a value that cannot be called: a TypeError.
\<close>

fun joinComma :: "(error + jsstring) list \<Rightarrow> error + jsstring" where
  "joinComma [] = Inr []"
| "joinComma [x] = x"
| "joinComma (x # xs) =
     (case x of
        Inl e \<Rightarrow> Inl e
      | Inr t \<Rightarrow> (case joinComma xs of Inl e \<Rightarrow> Inl e | Inr u \<Rightarrow> Inr (t @ js '','' @ u)))"

fun toText :: "platform \<Rightarrow> json \<Rightarrow> error + jsstring" where
  "toText pf JNull = Inr (js ''null'')"
| "toText pf (JBool b) = Inr (if b then js ''true'' else js ''false'')"
| "toText pf (JNumber n) = Inr (numberToString pf n)"
| "toText pf (JString t) = Inr t"
| "toText pf (JArray xs) =
     joinComma (map (\<lambda>x. if x = JNull then Inr [] else toText pf x) xs)"
| "toText pf (JObject ms) =
     (if js ''toString'' \<in> set (map fst ms) then Inl TypeError
      else Inr (js ''[object Object]''))"

section \<open>CompletionClient: the streaming reader\<close>

text \<open>
  The reader's state: the running accumulator \<open>assistantContent\<close> and the successive
  arguments of \<open>setStreamingMessage\<close>, oldest first.
\<close>

record reader =
  assistantContent :: jsstring
  streamed :: "jsstring list"

text \<open>
  The body of the inner \<open>try\<close>: parse the payload, read
  \<open>parsed.choices?.[0]?.delta?.content || ''\<close> and append it to the accumulator.
  The result is the new accumulator, or what was thrown.
\<close>

definition appendDelta :: "platform \<Rightarrow> jsstring \<Rightarrow> jsstring \<Rightarrow> error + jsstring" where
  "appendDelta pf acc data =
     (case JSON_parse data of
        None \<Rightarrow> Inl SyntaxError
      | Some parsed \<Rightarrow>
          (case dot parsed (js ''choices'') of
             Inl e \<Rightarrow> Inl e
           | Inr choices \<Rightarrow>
               (let content =
                      orElse pf
                        (optDot (optDot (optDot choices (js ''0'')) (js ''delta'')) (js ''content''))
                        (JString [])
                in case toText pf content of
                     Inl e \<Rightarrow> Inl e
                   | Inr t \<Rightarrow> Inr (acc @ t))))"

text \<open>One iteration of \<open>for (const line of lines)\<close>; the \<open>catch\<close> drops what was thrown.\<close>

definition processLine :: "platform \<Rightarrow> reader \<Rightarrow> jsstring \<Rightarrow> reader" where
  "processLine pf st line =
     (if startsWith line (js ''data: '') then
        (let data = drop 6 line
         in if data = js ''[DONE]'' then st
            else
              (case appendDelta pf (assistantContent st) data of
                 Inl e \<Rightarrow> st
               | Inr acc \<Rightarrow> \<lparr>assistantContent = acc, streamed = streamed st @ [acc]\<rparr>))
      else st)"

text \<open>\<open>decoder.decode(value).split('\n').filter(line => line.trim() !== '')\<close>\<close>

definition chunkLines :: "platform \<Rightarrow> byte list \<Rightarrow> jsstring list" where
  "chunkLines pf val = filter (\<lambda>line. trim line \<noteq> []) (split_lf (decode pf val))"

text \<open>One iteration of \<open>while (true)\<close> with \<open>done\<close> false, and the loop over the chunks read.\<close>

definition processChunk :: "platform \<Rightarrow> reader \<Rightarrow> byte list \<Rightarrow> reader" where
  "processChunk pf st val = foldl (processLine pf) st (chunkLines pf val)"

definition readChunks :: "platform \<Rightarrow> reader \<Rightarrow> byte list list \<Rightarrow> reader" where
  "readChunks pf st chunks = foldl (processChunk pf) st chunks"

section \<open>Data model\<close>

text \<open>
  A message's \<open>role\<close> is one of the strings \<open>user\<close> and \<open>assistant\<close>; the request adds
  \<open>system\<close>. Its \<open>content\<close> is a JavaScript value: always a string on the paths that
  build it from text, whatever the server sent on the non-streaming path.
\<close>

datatype role = System | User | Assistant

record message =
  message_id :: jsstring
  role :: role
  content :: json
  timestamp :: jsstring

record chat =
  chat_id :: jsstring
  title :: jsstring
  messages :: "message list"
  createdAt :: jsstring

text \<open>The settings; \<open>'f\<close> is the type of JavaScript numbers, which are only passed on.\<close>

record 'f settings =
  connectionType :: jsstring
  cloudEndpoint :: jsstring
  apiKey :: jsstring
  model :: jsstring
  localEndpoint :: jsstring
  localModel :: jsstring
  temperature :: 'f
  topP :: 'f
  maxTokens :: 'f
  streaming :: bool
  systemPrompt :: jsstring

text \<open>The state of \<open>App\<close> that the session engine reads and writes.\<close>

record 'f app =
  chats :: "chat list"
  activeChat :: "jsstring option"
  inputValue :: jsstring
  isLoading :: bool
  settings :: "'f settings"
  streamingMessage :: jsstring

section \<open>SessionStore\<close>

text \<open>\<open>createNewChat\<close>, with the results of \<open>generateId()\<close> and \<open>new Date().toISOString()\<close>.\<close>

definition createNewChat :: "jsstring \<Rightarrow> jsstring \<Rightarrow> 'f app \<Rightarrow> 'f app" where
  "createNewChat newId now s =
     (let newChat = \<lparr>chat_id = newId, title = js ''New Chat'', messages = [], createdAt = now\<rparr>
      in s\<lparr>chats := newChat # chats s, activeChat := Some newId, inputValue := []\<rparr>)"

definition deleteChat :: "jsstring \<Rightarrow> 'f app \<Rightarrow> 'f app" where
  "deleteChat chatId s =
     (let remaining = filter (\<lambda>c. chat_id c \<noteq> chatId) (chats s)
      in s\<lparr>chats := filter (\<lambda>c. chat_id c \<noteq> chatId) (chats s),
            activeChat :=
              (if activeChat s = Some chatId
               then (case remaining of [] \<Rightarrow> None | c # _ \<Rightarrow> Some (chat_id c))
               else activeChat s)\<rparr>)"

text \<open>\<open>xs.findIndex(p)\<close>; \<open>None\<close> is \<open>-1\<close>.\<close>

fun findIndex :: "('a \<Rightarrow> bool) \<Rightarrow> 'a list \<Rightarrow> nat option" where
  "findIndex p [] = None"
| "findIndex p (x # xs) = (if p x then Some 0 else map_option Suc (findIndex p xs))"

definition chatIndexOf :: "chat list \<Rightarrow> jsstring \<Rightarrow> nat option" where
  "chatIndexOf cs chatId = findIndex (\<lambda>c. chat_id c = chatId) cs"

text \<open>\<open>inputValue.slice(0, 50) + (inputValue.length > 50 ? '...' : '')\<close>\<close>

definition truncateTitle :: "jsstring \<Rightarrow> jsstring" where
  "truncateTitle text = take 50 text @ (if length text > 50 then js ''...'' else [])"

text \<open>
  The two places where \<open>sendMessage\<close> appends to a chat. The first records the user's
  message and names a chat that had none; the second, the updater passed to
  \<open>setChats\<close> on both the success and the failure path, records the reply. Both
  complete normally (\<open>Inr\<close>) whether or not the chat is found.
\<close>

definition appendUserMessage ::
  "chat list \<Rightarrow> jsstring \<Rightarrow> message \<Rightarrow> jsstring \<Rightarrow> error + chat list" where
  "appendUserMessage updatedChats chatId userMessage text =
     (case chatIndexOf updatedChats chatId of
        None \<Rightarrow> Inr updatedChats
      | Some i \<Rightarrow>
          Inr (updatedChats[i := (updatedChats ! i)
                 \<lparr>messages := messages (updatedChats ! i) @ [userMessage],
                  title := (if length (messages (updatedChats ! i)) = 0
                            then truncateTitle text
                            else title (updatedChats ! i))\<rparr>]))"

definition appendReply :: "chat list \<Rightarrow> jsstring \<Rightarrow> message \<Rightarrow> error + chat list" where
  "appendReply prev chatId reply =
     (case chatIndexOf prev chatId of
        None \<Rightarrow> Inr prev
      | Some idx \<Rightarrow>
          Inr (prev[idx := (prev ! idx)\<lparr>messages := messages (prev ! idx) @ [reply]\<rparr>]))"

section \<open>CompletionClient: the request\<close>

text \<open>
  The argument of \<open>fetch\<close>. The body is the object handed to \<open>JSON.stringify\<close>, with
  its keys \<open>model\<close>, \<open>messages\<close>, \<open>temperature\<close>, \<open>top_p\<close>, \<open>max_tokens\<close> and \<open>stream\<close>.
\<close>

record 'f completion_body =
  req_model :: jsstring
  req_messages :: "(role \<times> json) list"
  req_temperature :: 'f
  top_p :: 'f
  max_tokens :: 'f
  stream :: bool

record 'f request =
  url :: jsstring
  http_method :: jsstring
  headers :: "(jsstring \<times> jsstring) list"
  body :: "'f completion_body"

definition targetEndpoint :: "'f settings \<Rightarrow> jsstring" where
  "targetEndpoint st =
     (if connectionType st = js ''cloud'' then cloudEndpoint st else localEndpoint st)"

definition targetModel :: "'f settings \<Rightarrow> jsstring" where
  "targetModel st = (if connectionType st = js ''cloud'' then model st else localModel st)"

definition requestHeaders :: "'f settings \<Rightarrow> (jsstring \<times> jsstring) list" where
  "requestHeaders st =
     [(js ''Content-Type'', js ''application/json'')]
     @ (if connectionType st = js ''cloud'' \<and> apiKey st \<noteq> []
        then [(js ''Authorization'', js ''Bearer '' @ apiKey st)]
        else [])"

definition buildRequest :: "'f settings \<Rightarrow> message list \<Rightarrow> 'f request" where
  "buildRequest st history =
     \<lparr>url = targetEndpoint st @ js ''/chat/completions'',
      http_method = js ''POST'',
      headers = requestHeaders st,
      body =
        \<lparr>req_model = targetModel st,
         req_messages =
           (System, JString (systemPrompt st)) # map (\<lambda>m. (role m, content m)) history,
         req_temperature = temperature st,
         top_p = topP st,
         max_tokens = maxTokens st,
         stream = streaming st\<rparr>\<rparr>"

section \<open>CompletionClient: the response\<close>

text \<open>
  What \<open>fetch\<close> gives back. The body is the sequence of chunks its reader yields and
  how the sequence ends: \<open>Done\<close>, or \<open>Broken\<close> when a read is rejected. \<open>None\<close> is a
  response without a body (\<open>response.body\<close> is \<open>null\<close>).
\<close>

datatype stream_end = Done | Broken

record response =
  ok :: bool
  status :: nat
  resp_body :: "(byte list list \<times> stream_end) option"

datatype fetched = Rejected | Resolved response

text \<open>
  What one call of \<open>sendMessage\<close> takes from outside the state: the results of its
  calls of \<open>generateId()\<close> and \<open>new Date().toISOString()\<close>, and the network.
\<close>

record 'f turn_env =
  newChatId :: jsstring
  newChatTime :: jsstring
  userMessageId :: jsstring
  userMessageTime :: jsstring
  replyId :: jsstring
  replyTime :: jsstring
  fetch :: "'f request \<Rightarrow> fetched"

text \<open>The streaming branch: the accumulated text and what was shown on the way.\<close>

definition readStreaming ::
  "platform \<Rightarrow> response \<Rightarrow> (error + json) \<times> jsstring list" where
  "readStreaming pf resp =
     (case resp_body resp of
        None \<Rightarrow> (Inl TypeError, [])
      | Some (chunks, ending) \<Rightarrow>
          (let st = readChunks pf \<lparr>assistantContent = [], streamed = []\<rparr> chunks
           in case ending of
                Done \<Rightarrow> (Inr (JString (assistantContent st)), streamed st)
              | Broken \<Rightarrow> (Inl TransportError, streamed st)))"

text \<open>
  The other branch: \<open>await response.json()\<close>, then
  \<open>data.choices?.[0]?.message?.content || 'No response received.'\<close>.
\<close>

definition readJson :: "platform \<Rightarrow> response \<Rightarrow> error + json" where
  "readJson pf resp =
     (case resp_body resp of
        Some (chunks, Broken) \<Rightarrow> Inl TransportError
      | b \<Rightarrow>
          (case JSON_parse (decode pf (case b of None \<Rightarrow> [] | Some (chunks, _) \<Rightarrow> concat chunks)) of
             None \<Rightarrow> Inl SyntaxError
           | Some data \<Rightarrow>
               (case dot data (js ''choices'') of
                  Inl e \<Rightarrow> Inl e
                | Inr choices \<Rightarrow>
                    Inr (orElse pf
                          (optDot (optDot (optDot choices (js ''0'')) (js ''message'')) (js ''content''))
                          (JString (js ''No response received.''))))))"

text \<open>
  The body of the outer \<open>try\<close>, up to the value of \<open>assistantContent\<close>: what was
  thrown or the content of the reply, and the arguments of \<open>setStreamingMessage\<close>.
  Reading \<open>updatedChats[chatIndex].messages\<close> with \<open>chatIndex\<close> equal to \<open>-1\<close> is a
  TypeError, raised before the request is sent.
\<close>

definition complete ::
  "platform \<Rightarrow> 'f turn_env \<Rightarrow> 'f settings \<Rightarrow> chat list \<Rightarrow> nat option
     \<Rightarrow> (error + json) \<times> jsstring list" where
  "complete pf env st updatedChats chatIndex =
     (case chatIndex of
        None \<Rightarrow> (Inl TypeError, [])
      | Some i \<Rightarrow>
          (case fetch env (buildRequest st (messages (updatedChats ! i))) of
             Rejected \<Rightarrow> (Inl TransportError, [])
           | Resolved resp \<Rightarrow>
               if \<not> ok resp then (Inl (ApiError (status resp)), [])
               else if streaming st then readStreaming pf resp
               else (readJson pf resp, [])))"

section \<open>SessionController\<close>

text \<open>The warning sign U+26A0 U+FE0F that opens the error template.\<close>

definition warningSign :: jsstring where
  "warningSign = [0x26A0, 0xFE0F]"

definition errorContent :: "platform \<Rightarrow> error \<Rightarrow> jsstring" where
  "errorContent pf e =
     warningSign @ js '' Error: '' @ message pf e @ [0x0A, 0x0A]
     @ js ''Please check your API settings and try again.''"

text \<open>\<open>assistantMessage\<close> on success, \<open>errorMessage\<close> in the \<open>catch\<close>.\<close>

definition replyMessage :: "platform \<Rightarrow> 'f turn_env \<Rightarrow> error + json \<Rightarrow> message" where
  "replyMessage pf env outcome =
     \<lparr>message_id = replyId env,
      role = Assistant,
      content = (case outcome of Inr c \<Rightarrow> c | Inl e \<Rightarrow> JString (errorContent pf e)),
      timestamp = replyTime env\<rparr>"

text \<open>
  The guard of \<open>sendMessage\<close>: \<open>!inputValue.trim() || isLoading\<close>.
\<close>

definition rejected :: "'f app \<Rightarrow> bool" where
  "rejected s = (trim (inputValue s) = [] \<or> isLoading s)"

text \<open>
  The chat of the turn: \<open>updatedChats\<close>, \<open>chatId\<close> and the active-chat pointer after
  \<open>if (!chatId) { ... }\<close>. Both \<open>null\<close> and the empty string count as no chat.
\<close>

definition turnChat :: "'f turn_env \<Rightarrow> 'f app \<Rightarrow> chat list \<times> jsstring \<times> jsstring option" where
  "turnChat env s =
     (let newChat = \<lparr>chat_id = newChatId env, title = truncateTitle (inputValue s),
                      messages = [], createdAt = newChatTime env\<rparr>
      in case activeChat s of
           None \<Rightarrow> (newChat # chats s, newChatId env, Some (newChatId env))
         | Some a \<Rightarrow>
             if a = [] then (newChat # chats s, newChatId env, Some (newChatId env))
             else (chats s, a, Some a))"

definition userMessageOf :: "'f turn_env \<Rightarrow> 'f app \<Rightarrow> message" where
  "userMessageOf env s =
     \<lparr>message_id = userMessageId env, role = User, content = JString (inputValue s),
      timestamp = userMessageTime env\<rparr>"

text \<open>
  The state when \<open>sendMessage\<close> reaches its \<open>try\<close>, a turn in flight: the user's
  message is recorded, the input is cleared and \<open>isLoading\<close> is set. With it, the
  \<open>chatId\<close> and \<open>chatIndex\<close> of the turn.
\<close>

definition beginTurn ::
  "'f turn_env \<Rightarrow> 'f app \<Rightarrow> error + ('f app \<times> jsstring \<times> nat option)" where
  "beginTurn env s =
     (case turnChat env s of
        (updatedChats, chatId, active) \<Rightarrow>
          (case appendUserMessage updatedChats chatId (userMessageOf env s) (inputValue s) of
             Inl e \<Rightarrow> Inl e
           | Inr updatedChats' \<Rightarrow>
               Inr (s\<lparr>chats := updatedChats', activeChat := active, inputValue := [],
                       isLoading := True, streamingMessage := []\<rparr>,
                    chatId, chatIndexOf updatedChats chatId)))"

text \<open>
  The rest of the turn, run when the response has arrived, on the state \<open>cur\<close> found
  then. The request is built from what the call itself holds (its \<open>updatedChats\<close>, its
  \<open>chatIndex\<close> and the \<open>settings\<close> it was created with); the reply or the error message
  is appended through \<open>setChats(prev => ...)\<close>, to the collection as it is then; the
  flag and the streaming buffer are cleared.
\<close>

definition finishTurn ::
  "platform \<Rightarrow> 'f turn_env \<Rightarrow> 'f app \<times> jsstring \<times> nat option \<Rightarrow> 'f app
     \<Rightarrow> error + 'f app" where
  "finishTurn pf env t cur =
     (case t of
        (s, chatId, chatIndex) \<Rightarrow>
          (case appendReply (chats cur) chatId
                  (replyMessage pf env (fst (complete pf env (settings s) (chats s) chatIndex))) of
             Inl e \<Rightarrow> Inl e
           | Inr newChats \<Rightarrow>
               Inr (cur\<lparr>chats := newChats, isLoading := False, streamingMessage := []\<rparr>)))"

text \<open>
  \<open>sendMessage\<close> when no other handler runs while the request is pending: the turn
  finishes on the state it left at its \<open>await\<close>.
\<close>

definition sendMessage :: "platform \<Rightarrow> 'f turn_env \<Rightarrow> 'f app \<Rightarrow> error + 'f app" where
  "sendMessage pf env s =
     (if rejected s then Inr s
      else
        (case beginTurn env s of
           Inl e \<Rightarrow> Inl e
         | Inr t \<Rightarrow> finishTurn pf env t (fst t)))"

section \<open>ContentParser\<close>

text \<open>
  \<open>MessageContent\<close> cuts a message at the matches of
  \<open>/```(\w*)\n([\s\S]*?)```/g\<close>. A part is text, or code with its language.
\<close>

datatype part = TextPart jsstring | CodePart jsstring jsstring

definition fence :: jsstring where
  "fence = js ''```''"

text \<open>\<open>\w\<close>: a letter, a digit or the underscore.\<close>

definition isWordChar :: "jschar \<Rightarrow> bool" where
  "isWordChar c =
     ((0x41 \<le> c \<and> c \<le> 0x5A) \<or> (0x61 \<le> c \<and> c \<le> 0x7A) \<or> (0x30 \<le> c \<and> c \<le> 0x39)
      \<or> c = 0x5F)"

text \<open>The index of the first fence in a string.\<close>

fun findFence :: "jsstring \<Rightarrow> nat option" where
  "findFence [] = None"
| "findFence (c # r) =
     (if startsWith (c # r) fence then Some 0 else map_option Suc (findFence r))"

text \<open>
  A match of the expression at the head of a string: the two groups and the length of
  the match. The greedy \<open>\w*\<close> must be followed by a line feed, which is no word
  character, so only the longest run of word characters can match; the lazy
  \<open>[\s\S]*?\<close> ends at the first fence after the line feed.
\<close>

definition matchHere :: "jsstring \<Rightarrow> (jsstring \<times> jsstring \<times> nat) option" where
  "matchHere s =
     (if startsWith s fence then
        (let lang = takeWhile isWordChar (drop 3 s)
         in case dropWhile isWordChar (drop 3 s) of
              [] \<Rightarrow> None
            | c # rest \<Rightarrow>
                if c = 0x0A then
                  (case findFence rest of
                     None \<Rightarrow> None
                   | Some k \<Rightarrow> Some (lang, take k rest, 3 + length lang + 1 + k + 3))
                else None)
      else None)"

text \<open>The leftmost match in a string: its index, groups and length.\<close>

fun search :: "jsstring \<Rightarrow> (nat \<times> jsstring \<times> jsstring \<times> nat) option" where
  "search [] = None"
| "search (c # r) =
     (case matchHere (c # r) of
        Some (lang, code, n) \<Rightarrow> Some (0, lang, code, n)
      | None \<Rightarrow> map_option (\<lambda>(i, m). (Suc i, m)) (search r))"

text \<open>\<open>codeRegex.exec(content)\<close> with the expression's \<open>lastIndex\<close> at \<open>start\<close>.\<close>

definition exec :: "jsstring \<Rightarrow> nat \<Rightarrow> (nat \<times> jsstring \<times> jsstring \<times> nat) option" where
  "exec text start =
     (if start > length text then None
      else map_option (\<lambda>(i, m). (start + i, m)) (search (drop start text)))"

text \<open>\<open>content.slice(a, b)\<close> and \<open>content.slice(a)\<close> for \<open>a \<le> b\<close>.\<close>

definition slice :: "jsstring \<Rightarrow> nat \<Rightarrow> nat \<Rightarrow> jsstring" where
  "slice text a b = take (b - a) (drop a text)"

lemma matchHere_pos: "matchHere s = Some (lang, code, n) \<Longrightarrow> 0 < n"
  by (auto simp: matchHere_def Let_def split: if_splits list.splits option.splits)

lemma search_pos: "search s = Some (i, lang, code, n) \<Longrightarrow> 0 < n \<and> s \<noteq> []"
proof (induction s arbitrary: i)
  case Nil
  then show ?case by simp
next
  case (Cons c r)
  then show ?case
    by (auto split: option.splits dest: matchHere_pos)
qed

lemma exec_bounds:
  "exec text start = Some (i, lang, code, n) \<Longrightarrow> start \<le> i \<and> 0 < n \<and> start < length text"
  by (auto simp: exec_def split: if_splits dest: search_pos)

text \<open>The \<open>while\<close> loop over the matches, with \<open>lastIndex\<close> and \<open>parts\<close>.\<close>

function parseLoop :: "jsstring \<Rightarrow> nat \<Rightarrow> part list \<Rightarrow> nat \<times> part list" where
  "parseLoop text lastIndex parts =
     (case exec text lastIndex of
        None \<Rightarrow> (lastIndex, parts)
      | Some (i, lang, code, n) \<Rightarrow>
          parseLoop text (i + n)
            (parts
             @ (if i > lastIndex then [TextPart (slice text lastIndex i)] else [])
             @ [CodePart (if lang = [] then js ''code'' else lang) code]))"
  by pat_completeness auto
termination
  by (relation "measure (\<lambda>(text, lastIndex, parts). length text - lastIndex)")
     (auto dest!: exec_bounds)

text \<open>The parts \<open>MessageContent\<close> renders.\<close>

definition MessageContent :: "jsstring \<Rightarrow> part list" where
  "MessageContent text =
     (case parseLoop text 0 [] of
        (lastIndex, parts) \<Rightarrow>
          (let parts' = parts @ (if lastIndex < length text
                                 then [TextPart (drop lastIndex text)] else [])
           in if length parts' = 0 then [TextPart text] else parts'))"

section \<open>Turns and sessions\<close>

text \<open>\<open>currentChat\<close>: \<open>chats.find(c => c.id === activeChat)\<close>.\<close>

definition currentChat :: "'f app \<Rightarrow> chat option" where
  "currentChat s = find (\<lambda>c. Some (chat_id c) = activeChat s) (chats s)"

text \<open>What the \<open>try\<close> block of a turn yields: the reply's content, or what it threw.\<close>

definition turnOutcome :: "platform \<Rightarrow> 'f turn_env \<Rightarrow> 'f app \<Rightarrow> error + json" where
  "turnOutcome pf env s =
     (case beginTurn env s of
        Inl e \<Rightarrow> Inl e
      | Inr (s1, chatId, chatIndex) \<Rightarrow> fst (complete pf env (settings s1) (chats s1) chatIndex))"


text \<open>
  A chat is titled when it has no message yet, or its title is the first 50 code units of
  its first user message, followed by \<open>...\<close> when the message is longer.
\<close>

definition titled :: "chat \<Rightarrow> bool" where
  "titled c =
     (case messages c of
        [] \<Rightarrow> True
      | _ \<Rightarrow>
          (case find (\<lambda>m. role m = User) (messages c) of
             None \<Rightarrow> False
           | Some m \<Rightarrow>
               (case content m of
                  JString t \<Rightarrow> title c = take 50 t @ (if length t > 50 then js ''...'' else [])
                | _ \<Rightarrow> False)))"

definition titlesValid :: "'f app \<Rightarrow> bool" where
  "titlesValid s = list_all titled (chats s)"

text \<open>
  What a user can do to the session: the handlers of the sidebar (\<open>createNewChat\<close>,
  \<open>deleteChat\<close>, \<open>setActiveChat(chat.id)\<close> on a listed chat), of the input box
  (\<open>setInputValue\<close>), of the settings dialog (\<open>setSettings\<close>) and \<open>sendMessage\<close> with the
  platform and environment of the turn. A turn runs to its end before the next action.
\<close>

datatype 'f action =
    NewChat jsstring jsstring
  | DeleteChat jsstring
  | SelectChat jsstring
  | TypeInput jsstring
  | SaveSettings "'f settings"
  | Send platform "'f turn_env"

fun perform :: "'f action \<Rightarrow> 'f app \<Rightarrow> error + 'f app" where
  "perform (NewChat newId now) s = Inr (createNewChat newId now s)"
| "perform (DeleteChat chatId) s = Inr (deleteChat chatId s)"
| "perform (SelectChat chatId) s =
     Inr (if chatId \<in> set (map chat_id (chats s)) then s\<lparr>activeChat := Some chatId\<rparr> else s)"
| "perform (TypeInput v) s = Inr (s\<lparr>inputValue := v\<rparr>)"
| "perform (SaveSettings st) s = Inr (s\<lparr>settings := st\<rparr>)"
| "perform (Send pf env) s = sendMessage pf env s"

fun runActions :: "'f action list \<Rightarrow> 'f app \<Rightarrow> error + 'f app" where
  "runActions [] s = Inr s"
| "runActions (a # rest) s =
     (case perform a s of Inl e \<Rightarrow> Inl e | Inr s' \<Rightarrow> runActions rest s')"

text \<open>The state \<open>App\<close> starts in, for given settings.\<close>

definition initialState :: "'f settings \<Rightarrow> 'f app" where
  "initialState st =
     \<lparr>chats = [], activeChat = None, inputValue = [], isLoading = False, settings = st,
      streamingMessage = []\<rparr>"

text \<open>
  \<open>sendMessage\<close> with other handlers running while it waits at \<open>await fetch\<close> or
  \<open>await reader.read()\<close>: the actions \<open>during\<close> are applied to the state the turn left
  at its \<open>await\<close>, and the turn finishes on the state they lead to. (A \<open>Send\<close> among
  them finds \<open>isLoading\<close> set and is rejected.)
\<close>

definition sendMessageDuring ::
  "platform \<Rightarrow> 'f turn_env \<Rightarrow> 'f action list \<Rightarrow> 'f app \<Rightarrow> error + 'f app" where
  "sendMessageDuring pf env during s =
     (if rejected s then Inr s
      else
        (case beginTurn env s of
           Inl e \<Rightarrow> Inl e
         | Inr t \<Rightarrow>
             (case runActions during (fst t) of
                Inl e \<Rightarrow> Inl e
              | Inr cur \<Rightarrow> finishTurn pf env t cur)))"

section \<open>Decoders\<close>

text \<open>
  What every UTF-8 decoder does with a chunk of 7-bit bytes: each byte becomes the code
  unit of the same value.
\<close>

definition decodesAscii :: "platform \<Rightarrow> bool" where
  "decodesAscii pf = (\<forall>bs. list_all (\<lambda>b. b < 0x80) bs \<longrightarrow> decode pf bs = map ucast bs)"

section \<open>Sequences of store operations\<close>

text \<open>
  A create or delete request with its arguments, and the state after a sequence of them.
  \<open>pointerValid\<close> is the invariant of the active-chat pointer: \<open>null\<close>, or the id of
  a chat in the collection.
\<close>

datatype store_op = Create jsstring jsstring | Delete jsstring

fun applyOp :: "store_op \<Rightarrow> 'f app \<Rightarrow> 'f app" where
  "applyOp (Create newId now) s = createNewChat newId now s"
| "applyOp (Delete chatId) s = deleteChat chatId s"

definition runOps :: "store_op list \<Rightarrow> 'f app \<Rightarrow> 'f app" where
  "runOps ops s = foldl (\<lambda>t op. applyOp op t) s ops"

definition pointerValid :: "'f app \<Rightarrow> bool" where
  "pointerValid s =
     (case activeChat s of None \<Rightarrow> True | Some a \<Rightarrow> a \<in> set (map chat_id (chats s)))"

section \<open>Concrete inputs\<close>

text \<open>
  A platform that decodes 7-bit chunks, an environment whose server answers every request
  with status 500, one whose server streams two deltas, a state with one chat and one
  with two, used where a theorem is applied to a concrete input.
\<close>

definition examplePlatform :: platform where
  "examplePlatform =
     \<lparr>decode = map ucast,
      numberIsZero = (\<lambda>n. list_all (\<lambda>c. \<not> (0x31 \<le> c \<and> c \<le> 0x39)) n),
      numberToString = (\<lambda>n. n), platformMessage = (\<lambda>e. js ''Failed to fetch'')\<rparr>"

definition exampleSettings :: "real settings" where
  "exampleSettings =
     \<lparr>connectionType = js ''cloud'', cloudEndpoint = js ''https://text.pollinations.ai/openai'',
      apiKey = [], model = js ''openai'', localEndpoint = js ''http://localhost:11434/v1'',
      localModel = js ''llama2'', temperature = 0.7, topP = 0.95, maxTokens = 2048,
      streaming = True, systemPrompt = js ''You are LoanLens AI''\<rparr>"

definition exampleEnv :: "real turn_env" where
  "exampleEnv =
     \<lparr>newChatId = js ''c2'', newChatTime = js ''t1'', userMessageId = js ''m3'',
      userMessageTime = js ''t2'', replyId = js ''m4'', replyTime = js ''t3'',
      fetch = (\<lambda>r. Resolved \<lparr>ok = False, status = 500, resp_body = None\<rparr>)\<rparr>"

definition exampleStreamEnv :: "real turn_env" where
  \<open>exampleStreamEnv =
     exampleEnv\<lparr>fetch := (\<lambda>r. Resolved
        \<lparr>ok = True, status = 200,
         resp_body = Some ([bytes ''data: {"choices":[{"delta":{"content":"A"}}]}\<newline>data: {"choices":[{"delta":{"content":"B"}}]}\<newline>data: [DONE]\<newline>''], Done)\<rparr>)\<rparr>\<close>

definition exampleChat :: chat where
  "exampleChat =
     \<lparr>chat_id = js ''c1'', title = js ''What is APR?'',
      messages =
        [\<lparr>message_id = js ''m1'', role = User, content = JString (js ''What is APR?''),
          timestamp = js ''t0''\<rparr>,
         \<lparr>message_id = js ''m2'', role = Assistant, content = JString (js ''A yearly rate.''),
          timestamp = js ''t0''\<rparr>],
      createdAt = js ''t0''\<rparr>"

definition exampleState :: "real app" where
  "exampleState =
     \<lparr>chats = [exampleChat], activeChat = Some (js ''c1''), inputValue = js ''And APY?'',
      isLoading = False, settings = exampleSettings, streamingMessage = []\<rparr>"



section \<open>Auxiliary facts\<close>

lemma startsWith_prefix: "startsWith s p \<Longrightarrow> prefix p s"
  unfolding startsWith_def by (metis take_is_prefix)

lemma search_no_fence: "\<not> sublist fence s \<Longrightarrow> search s = None"
proof (induction s)
  case Nil
  then show ?case by simp
next
  case (Cons c r)
  have "\<not> startsWith (c # r) fence"
    using Cons.prems startsWith_prefix prefix_imp_sublist by blast
  then have "matchHere (c # r) = None"
    by (simp add: matchHere_def)
  moreover have "\<not> sublist fence r"
    using Cons.prems by (simp add: sublist_Cons_right)
  ultimately show ?case
    using Cons.IH by simp
qed

lemma trim_blank_iff: "trim str = [] \<longleftrightarrow> (\<forall>c\<in>set str. isWhiteSpace c)"
proof
  assume "trim str = []"
  then have all: "\<forall>x\<in>set (dropWhile isWhiteSpace str). isWhiteSpace x"
    by (simp add: trim_def)
  have "dropWhile isWhiteSpace str = []"
  proof (rule ccontr)
    assume ne: "dropWhile isWhiteSpace str \<noteq> []"
    then have "\<not> isWhiteSpace (hd (dropWhile isWhiteSpace str))"
      by (rule hd_dropWhile)
    with ne all show False
      by (metis list.set_sel(1))
  qed
  then show "\<forall>c\<in>set str. isWhiteSpace c"
    by simp
next
  assume "\<forall>c\<in>set str. isWhiteSpace c"
  then show "trim str = []"
    by (auto simp: trim_def dest: set_dropWhileD)
qed

lemma pointerValid_create: "pointerValid (createNewChat newId now s)"
  by (simp add: pointerValid_def createNewChat_def)

lemma pointerValid_delete:
  assumes "pointerValid s"
  shows "pointerValid (deleteChat chatId s)"
proof (cases "activeChat s = Some chatId")
  case True
  let ?remaining = "filter (\<lambda>c. chat_id c \<noteq> chatId) (chats s)"
  show ?thesis
  proof (cases ?remaining)
    case Nil
    with True show ?thesis
      by (simp add: pointerValid_def deleteChat_def)
  next
    case (Cons c cs)
    then have "c \<in> set ?remaining" by simp
    with True Cons show ?thesis
      by (simp add: pointerValid_def deleteChat_def)
  qed
next
  case False
  with assms show ?thesis
    by (auto simp: pointerValid_def deleteChat_def split: option.splits)
qed

lemma pointerValid_run: "pointerValid s \<Longrightarrow> pointerValid (runOps ops s)"
proof (induction ops arbitrary: s)
  case Nil
  then show ?case by (simp add: runOps_def)
next
  case (Cons op ops)
  have "pointerValid (applyOp op s)"
    using Cons.prems by (cases op) (simp_all add: pointerValid_create pointerValid_delete)
  then have "pointerValid (runOps ops (applyOp op s))"
    by (rule Cons.IH)
  then show ?case by (simp add: runOps_def)
qed

lemma delete_missing:
  assumes "pointerValid s" "chatId \<notin> set (map chat_id (chats s))"
  shows "deleteChat chatId s = s"
proof -
  have "filter (\<lambda>c. chat_id c \<noteq> chatId) (chats s) = chats s"
    using assms(2) by (auto simp: filter_id_conv)
  moreover have "activeChat s \<noteq> Some chatId"
    using assms by (auto simp: pointerValid_def)
  ultimately show ?thesis
    by (simp add: deleteChat_def)
qed

lemma findIndex_None_iff: "findIndex p xs = None \<longleftrightarrow> (\<forall>x\<in>set xs. \<not> p x)"
  by (induction xs) auto

lemma chatIndexOf_None_iff: "chatIndexOf cs chatId = None \<longleftrightarrow> chatId \<notin> set (map chat_id cs)"
  by (auto simp: chatIndexOf_def findIndex_None_iff)

lemmas json_eval =
  JSON_parse_def js_def startsWith_def isJsonWhiteSpace_def isDigit_def
  parseElements.simps parseMembers.simps

lemma parse_delta_A:
  \<open>JSON_parse (js ''{"choices":[{"delta":{"content":"A"}}]}'')
     = Some (JObject [(js ''choices'',
          JArray [JObject [(js ''delta'', JObject [(js ''content'', JString (js ''A''))])]])])\<close>
  by (simp add: json_eval)

lemma parse_delta_B:
  \<open>JSON_parse (js ''{"choices":[{"delta":{"content":"B"}}]}'')
     = Some (JObject [(js ''choices'',
          JArray [JObject [(js ''delta'', JObject [(js ''content'', JString (js ''B''))])]])])\<close>
  by (simp add: json_eval)

lemma content_of_delta:
  assumes "JSON_parse data
     = Some (JObject [(js ''choices'',
          JArray [JObject [(js ''delta'', JObject [(js ''content'', JString t)])]])])"
    and "t \<noteq> []"
  shows "appendDelta pf acc data = Inr (acc @ t)"
  using assms by (simp add: appendDelta_def dot_def optDot_def orElse_def truthy_def)

lemma data_line:
  assumes "startsWith line (js ''data: '')" and "drop 6 line \<noteq> js ''[DONE]''"
    and "appendDelta pf (assistantContent st) (drop 6 line) = Inr acc"
  shows "processLine pf st line = \<lparr>assistantContent = acc, streamed = streamed st @ [acc]\<rparr>"
  using assms by (simp add: processLine_def Let_def)

lemma line_delta_A:
  \<open>processLine pf st (js ''data: {"choices":[{"delta":{"content":"A"}}]}'')
     = \<lparr>assistantContent = assistantContent st @ js ''A'',
        streamed = streamed st @ [assistantContent st @ js ''A'']\<rparr>\<close>
proof (rule data_line)
  have d: \<open>drop 6 (js ''data: {"choices":[{"delta":{"content":"A"}}]}'')
             = js ''{"choices":[{"delta":{"content":"A"}}]}''\<close>
    by (simp add: js_def)
  show \<open>startsWith (js ''data: {"choices":[{"delta":{"content":"A"}}]}'') (js ''data: '')\<close>
    by (simp add: js_def startsWith_def)
  show \<open>drop 6 (js ''data: {"choices":[{"delta":{"content":"A"}}]}'') \<noteq> js ''[DONE]''\<close>
    by (simp add: js_def)
  have "js ''A'' \<noteq> []" by (simp add: js_def)
  then show \<open>appendDelta pf (assistantContent st)
          (drop 6 (js ''data: {"choices":[{"delta":{"content":"A"}}]}''))
        = Inr (assistantContent st @ js ''A'')\<close>
    unfolding d using parse_delta_A by (rule content_of_delta [rotated])
qed

lemma line_delta_B:
  \<open>processLine pf st (js ''data: {"choices":[{"delta":{"content":"B"}}]}'')
     = \<lparr>assistantContent = assistantContent st @ js ''B'',
        streamed = streamed st @ [assistantContent st @ js ''B'']\<rparr>\<close>
proof (rule data_line)
  have d: \<open>drop 6 (js ''data: {"choices":[{"delta":{"content":"B"}}]}'')
             = js ''{"choices":[{"delta":{"content":"B"}}]}''\<close>
    by (simp add: js_def)
  show \<open>startsWith (js ''data: {"choices":[{"delta":{"content":"B"}}]}'') (js ''data: '')\<close>
    by (simp add: js_def startsWith_def)
  show \<open>drop 6 (js ''data: {"choices":[{"delta":{"content":"B"}}]}'') \<noteq> js ''[DONE]''\<close>
    by (simp add: js_def)
  have "js ''B'' \<noteq> []" by (simp add: js_def)
  then show \<open>appendDelta pf (assistantContent st)
          (drop 6 (js ''data: {"choices":[{"delta":{"content":"B"}}]}''))
        = Inr (assistantContent st @ js ''B'')\<close>
    unfolding d using parse_delta_B by (rule content_of_delta [rotated])
qed

lemma line_done: "processLine pf st (js ''data: [DONE]'') = st"
proof -
  have "drop 6 (js ''data: [DONE]'') = js ''[DONE]''"
    by (simp add: js_def)
  then show ?thesis
    by (simp add: processLine_def Let_def)
qed

lemma line_malformed:
  assumes "JSON_parse (drop 6 line) = None"
  shows "processLine pf st line = st"
  using assms by (simp add: processLine_def appendDelta_def Let_def)

lemma line_without_prefix: "\<not> startsWith line (js ''data: '') \<Longrightarrow> processLine pf st line = st"
  by (simp add: processLine_def)

lemma three_lines_split:
  \<open>filter (\<lambda>line. trim line \<noteq> [])
     (split_lf (js ''data: {"choices":[{"delta":{"content":"A"}}]}\<newline>data: {"choices":[{"delta":{"content":"B"}}]}\<newline>data: [DONE]\<newline>''))
   = [js ''data: {"choices":[{"delta":{"content":"A"}}]}'',
      js ''data: {"choices":[{"delta":{"content":"B"}}]}'',
      js ''data: [DONE]'']\<close>
  by (simp add: js_def trim_def isWhiteSpace_def)

lemma readChunks_lines:
  "readChunks pf st chunks = foldl (processLine pf) st (concat (map (chunkLines pf) chunks))"
  by (induction chunks arbitrary: st) (simp_all add: readChunks_def processChunk_def)

lemma findIndex_Some:
  "findIndex p xs = Some i \<Longrightarrow> i < length xs \<and> p (xs ! i) \<and> find p xs = Some (xs ! i)"
proof (induction xs arbitrary: i)
  case Nil
  then show ?case by simp
next
  case (Cons x xs)
  then show ?case
    by (cases "p x") auto
qed

lemma findIndex_update:
  "findIndex p xs = Some i \<Longrightarrow> p y \<Longrightarrow> findIndex p (xs[i := y]) = Some i"
proof (induction xs arbitrary: i)
  case Nil
  then show ?case by simp
next
  case (Cons x xs)
  then show ?case
    by (cases "p x") auto
qed

lemma turnChat_cases:
  obtains (new) "activeChat s = None \<or> activeChat s = Some []"
      "turnChat env s =
         (\<lparr>chat_id = newChatId env, title = truncateTitle (inputValue s), messages = [],
            createdAt = newChatTime env\<rparr> # chats s, newChatId env, Some (newChatId env))"
    | (old) a where "activeChat s = Some a" "a \<noteq> []" "turnChat env s = (chats s, a, Some a)"
  by (cases "activeChat s") (auto simp: turnChat_def)


lemma sendMessage_found:
  assumes "\<not> rejected s" and "turnChat env s = (cs0, cid, act)"
    and "chatIndexOf cs0 cid = Some i"
  shows "sendMessage pf env s =
     Inr (s\<lparr>chats := cs0[i := (cs0 ! i)
              \<lparr>messages := messages (cs0 ! i)
                   @ [userMessageOf env s, replyMessage pf env (turnOutcome pf env s)],
               title := (if messages (cs0 ! i) = [] then truncateTitle (inputValue s)
                         else title (cs0 ! i))\<rparr>],
            activeChat := act, inputValue := [], isLoading := False, streamingMessage := []\<rparr>)"
proof -
  define c1 where "c1 = (cs0 ! i)\<lparr>messages := messages (cs0 ! i) @ [userMessageOf env s],
               title := (if length (messages (cs0 ! i)) = 0 then truncateTitle (inputValue s)
                         else title (cs0 ! i))\<rparr>"
  define cs1 where "cs1 = cs0[i := c1]"
  define s1 where "s1 = s\<lparr>chats := cs1, activeChat := act, inputValue := [], isLoading := True,
             streamingMessage := []\<rparr>"
  define r where "r = replyMessage pf env (fst (complete pf env (settings s1) (chats s1) (Some i)))"
  from assms(3) have i: "i < length cs0" and id: "chat_id (cs0 ! i) = cid"
    using findIndex_Some [of "\<lambda>c. chat_id c = cid" cs0 i] by (simp_all add: chatIndexOf_def)
  have user: "appendUserMessage cs0 cid (userMessageOf env s) (inputValue s) = Inr cs1"
    using assms(3) by (simp add: appendUserMessage_def cs1_def c1_def)
  have "chat_id c1 = cid"
    using id by (simp add: c1_def)
  with assms(3) have idx: "chatIndexOf cs1 cid = Some i"
    unfolding chatIndexOf_def cs1_def by (intro findIndex_update)
  have nth: "cs1 ! i = c1"
    using i by (simp add: cs1_def)
  have started: "beginTurn env s = Inr (s1, cid, Some i)"
    using assms(2,3) user by (simp add: beginTurn_def s1_def)
  have out: "turnOutcome pf env s = fst (complete pf env (settings s1) (chats s1) (Some i))"
    by (simp add: turnOutcome_def started)
  have "appendReply (chats s1) cid r = Inr (cs1[i := c1\<lparr>messages := messages c1 @ [r]\<rparr>])"
    using idx nth by (simp add: appendReply_def s1_def)
  then have "finishTurn pf env (s1, cid, Some i) s1 =
      Inr (s1\<lparr>chats := cs1[i := c1\<lparr>messages := messages c1 @ [r]\<rparr>], isLoading := False,
             streamingMessage := []\<rparr>)"
    by (simp add: finishTurn_def r_def)
  then have "sendMessage pf env s =
      Inr (s1\<lparr>chats := cs1[i := c1\<lparr>messages := messages c1 @ [r]\<rparr>], isLoading := False,
             streamingMessage := []\<rparr>)"
    using assms(1) started by (simp add: sendMessage_def)
  moreover have "r = replyMessage pf env (turnOutcome pf env s)"
    by (simp add: r_def out)
  ultimately show ?thesis
    by (cases s, cases "cs0 ! i") (simp add: s1_def cs1_def c1_def)
qed

lemma sendMessage_missing:
  assumes "\<not> rejected s" and "turnChat env s = (cs0, cid, act)"
    and "chatIndexOf cs0 cid = None"
  shows "sendMessage pf env s =
     Inr (s\<lparr>chats := cs0, activeChat := act, inputValue := [], isLoading := False,
            streamingMessage := []\<rparr>)"
  using assms
  by (simp add: sendMessage_def beginTurn_def finishTurn_def appendUserMessage_def appendReply_def)











lemma sendMessageDuring_Nil: "sendMessageDuring pf env [] s = sendMessage pf env s"
  by (simp add: sendMessageDuring_def sendMessage_def split: sum.splits)





lemma titled_iff:
  "titled c \<longleftrightarrow>
     (messages c \<noteq> [] \<longrightarrow>
        (\<exists>m t. find (\<lambda>m. role m = User) (messages c) = Some m \<and> content m = JString t
           \<and> title c = take 50 t @ (if length t > 50 then js ''...'' else [])))"
  by (auto simp: titled_def split: list.splits option.splits json.splits)

lemma titled_first:
  "messages c = [] \<Longrightarrow>
     titled (c\<lparr>messages := messages c @ [userMessageOf env s, reply],
               title := truncateTitle (inputValue s)\<rparr>)"
  by (simp add: titled_iff userMessageOf_def truncateTitle_def)

lemma find_append_first:
  "find P (xs @ ys) = (case find P xs of None \<Rightarrow> find P ys | Some x \<Rightarrow> Some x)"
  by (induction xs) simp_all

lemma map_update_same: "(map f xs)[i := f (xs ! i)] = map f xs"
proof -
  have "map f (xs[i := xs ! i]) = map f xs"
    by (simp only: list_update_id)
  then show ?thesis
    by (simp only: map_update)
qed

lemma titled_later:
  assumes "titled c" and "messages c \<noteq> []"
  shows "titled (c\<lparr>messages := messages c @ later\<rparr>)"
  using assms by (auto simp: titled_iff find_append_first)

lemma list_all_update:
  "list_all P xs \<Longrightarrow> P y \<Longrightarrow> list_all P (xs[i := y])"
  unfolding list_all_iff using set_update_subset_insert [of xs i y] by auto


lemma titled_turnChat:
  assumes "list_all titled (chats s)" and "turnChat env s = (cs0, cid, act)"
  shows "list_all titled cs0"
  using assms by (cases rule: turnChat_cases [of s env]) (auto simp: titled_def)

lemma sendMessage_titles:
  assumes "titlesValid s"
  shows "\<exists>s'. sendMessage pf env s = Inr s' \<and> titlesValid s'"
proof (cases "rejected s")
  case True
  with assms show ?thesis
    by (simp add: sendMessage_def)
next
  case False
  obtain cs0 cid act where tc: "turnChat env s = (cs0, cid, act)"
    by (cases "turnChat env s") auto
  have all0: "list_all titled cs0"
    using assms tc by (simp add: titlesValid_def titled_turnChat)
  show ?thesis
  proof (cases "chatIndexOf cs0 cid")
    case None
    show ?thesis
      using sendMessage_missing [OF False tc None, of pf] all0 by (simp add: titlesValid_def)
  next
    case (Some i)
    then have i: "i < length cs0"
      using findIndex_Some [of "\<lambda>c. chat_id c = cid" cs0 i] by (simp add: chatIndexOf_def)
    then have old: "titled (cs0 ! i)"
      using all0 by (simp add: list_all_length)
    define reply where "reply = replyMessage pf env (turnOutcome pf env s)"
    define c where "c = (cs0 ! i)
              \<lparr>messages := messages (cs0 ! i) @ [userMessageOf env s, reply],
               title := (if messages (cs0 ! i) = [] then truncateTitle (inputValue s)
                         else title (cs0 ! i))\<rparr>"
    have "titled c"
    proof (cases "messages (cs0 ! i) = []")
      case True
      then show ?thesis
        unfolding c_def using titled_first by simp
    next
      case False
      then show ?thesis
        unfolding c_def using titled_later [OF old, of "[userMessageOf env s, reply]"] by simp
    qed
    with all0 have "list_all titled (cs0[i := c])"
      by (rule list_all_update)
    then show ?thesis
      using sendMessage_found [OF False tc Some, of pf]
      by (simp add: titlesValid_def c_def reply_def)
  qed
qed

lemma perform_titles:
  assumes "titlesValid s"
  shows "\<exists>s'. perform a s = Inr s' \<and> titlesValid s'"
proof (cases a)
  case (NewChat newId now)
  with assms show ?thesis
    by (simp add: titlesValid_def createNewChat_def titled_def)
next
  case (DeleteChat chatId)
  with assms show ?thesis
    by (simp add: titlesValid_def deleteChat_def list_all_iff)
next
  case (Send pf env)
  with assms show ?thesis
    by (simp add: sendMessage_titles)
qed (use assms in \<open>simp_all add: titlesValid_def\<close>)

lemma runActions_titles:
  "titlesValid s \<Longrightarrow> \<exists>s'. runActions acts s = Inr s' \<and> titlesValid s'"
proof (induction acts arbitrary: s)
  case Nil
  then show ?case by simp
next
  case (Cons a acts)
  from perform_titles [OF Cons.prems, of a] obtain s1 where "perform a s = Inr s1" "titlesValid s1"
    by blast
  with Cons.IH [of s1] show ?case
    by simp
qed

lemma appendReply_titles: "appendReply cs chatId reply = Inr cs' \<Longrightarrow> map title cs' = map title cs"
  by (auto simp: appendReply_def map_update map_update_same split: option.splits)

lemma appendUserMessage_titles:
  "appendUserMessage cs chatId userMessage str = Inr cs' \<Longrightarrow> chatIndexOf cs chatId = Some i
     \<Longrightarrow> messages (cs ! i) \<noteq> [] \<Longrightarrow> map title cs' = map title cs"
  by (auto simp: appendUserMessage_def map_update map_update_same)

lemmas turn_eval =
  sendMessage_def rejected_def trim_def isWhiteSpace_def beginTurn_def finishTurn_def
  turnChat_def userMessageOf_def appendUserMessage_def appendReply_def chatIndexOf_def
  complete_def replyMessage_def truncateTitle_def

section \<open>ContentParser: text without a fence\<close>

text \<open>
  C9. For every input text that contains no triple backtick, the empty string included,
  \<open>MessageContent\<close> yields exactly one part, a text part whose content is the input.
\<close>

theorem no_fence_single_text_part:
  assumes "\<not> sublist fence str"
  shows "MessageContent str = [TextPart str]"
proof -
  have "exec str 0 = None"
    using assms by (simp add: exec_def search_no_fence)
  then have "parseLoop str 0 [] = (0, [])"
    by simp
  then show ?thesis
    by (cases str) (simp_all add: MessageContent_def)
qed

theorem no_fence_single_text_part_witness:
  "\<not> sublist fence (js ''Your APR is 5%'')
   \<and> MessageContent (js ''Your APR is 5%'') = [TextPart (js ''Your APR is 5%'')]
   \<and> \<not> sublist fence [] \<and> MessageContent [] = [TextPart []]"
proof -
  have a: "\<not> sublist fence (js ''Your APR is 5%'')"
    by (simp add: fence_def js_def sublist_Cons_right)
  have b: "\<not> sublist fence []"
    by (simp add: fence_def js_def)
  show ?thesis
    using a b no_fence_single_text_part [OF a] no_fence_single_text_part [OF b] by simp
qed

section \<open>SessionController: the guard\<close>

text \<open>
  C4. In every state whose input is empty or consists of white space only, or whose
  in-flight flag \<open>isLoading\<close> is set, \<open>sendMessage\<close> returns the state it was given:
  the chats, their messages and the active-chat pointer are unchanged.
\<close>

theorem rejected_send_is_noop:
  "(\<forall>c\<in>set (inputValue s). isWhiteSpace c) \<or> isLoading s \<Longrightarrow> sendMessage pf env s = Inr s"
  by (auto simp: sendMessage_def rejected_def trim_blank_iff)

theorem rejected_send_is_noop_witness:
  "list_all isWhiteSpace (inputValue (exampleState\<lparr>inputValue := js ''  ''\<rparr>))
   \<and> sendMessage examplePlatform exampleEnv (exampleState\<lparr>inputValue := js ''  ''\<rparr>)
       = Inr (exampleState\<lparr>inputValue := js ''  ''\<rparr>)
   \<and> isLoading (exampleState\<lparr>isLoading := True\<rparr>)
   \<and> sendMessage examplePlatform exampleEnv (exampleState\<lparr>isLoading := True\<rparr>)
       = Inr (exampleState\<lparr>isLoading := True\<rparr>)"
proof -
  have a: "\<forall>c\<in>set (inputValue (exampleState\<lparr>inputValue := js ''  ''\<rparr>)). isWhiteSpace c"
    by (simp add: js_def isWhiteSpace_def)
  have b: "isLoading (exampleState\<lparr>isLoading := True\<rparr>)"
    by simp
  show ?thesis
    using a b
      rejected_send_is_noop [of "exampleState\<lparr>inputValue := js ''  ''\<rparr>" examplePlatform exampleEnv]
      rejected_send_is_noop [of "exampleState\<lparr>isLoading := True\<rparr>" examplePlatform exampleEnv]
    unfolding list_all_iff by blast
qed

section \<open>SessionStore: the active-chat pointer\<close>

text \<open>
  C5. From a state in which the active-chat pointer is \<open>null\<close> or the id of a chat of
  the collection, every sequence of \<open>createNewChat\<close> and \<open>deleteChat\<close> leads to such a
  state. In the state reached, deleting the active chat sets the pointer to the id of the
  first remaining chat, or to \<open>null\<close> when none remains; deleting another chat leaves
  the pointer as it is; deleting an id that no chat has changes nothing. The collection
  after a delete is the one before it without the chats of that id, in the same order,
  and "first remaining" and "none remains" refer to it; a create puts the new chat first
  and makes it active.
\<close>

theorem active_pointer_valid:
  assumes "pointerValid s"
  shows "pointerValid (runOps ops s)
    \<and> (\<forall>chatId.
         (activeChat (runOps ops s) = Some chatId \<longrightarrow>
            activeChat (deleteChat chatId (runOps ops s)) =
              (case filter (\<lambda>c. chat_id c \<noteq> chatId) (chats (runOps ops s)) of
                 [] \<Rightarrow> None | c # _ \<Rightarrow> Some (chat_id c)))
       \<and> (activeChat (runOps ops s) \<noteq> Some chatId \<longrightarrow>
            activeChat (deleteChat chatId (runOps ops s)) = activeChat (runOps ops s))
       \<and> (chatId \<notin> set (map chat_id (chats (runOps ops s))) \<longrightarrow>
            deleteChat chatId (runOps ops s) = runOps ops s)
       \<and> chats (deleteChat chatId (runOps ops s))
           = filter (\<lambda>c. chat_id c \<noteq> chatId) (chats (runOps ops s))
       \<and> (activeChat (runOps ops s) = Some chatId \<longrightarrow>
            activeChat (deleteChat chatId (runOps ops s)) =
              (case chats (deleteChat chatId (runOps ops s)) of
                 [] \<Rightarrow> None | c # _ \<Rightarrow> Some (chat_id c)))
       \<and> pointerValid (deleteChat chatId (runOps ops s)))
    \<and> (\<forall>newId now.
         chats (createNewChat newId now (runOps ops s))
           = \<lparr>chat_id = newId, title = js ''New Chat'', messages = [], createdAt = now\<rparr>
             # chats (runOps ops s)
       \<and> activeChat (createNewChat newId now (runOps ops s)) = Some newId)"
proof -
  have v: "pointerValid (runOps ops s)"
    using assms by (rule pointerValid_run)
  show ?thesis
    using v delete_missing [OF v] pointerValid_delete [OF v]
    by (simp add: deleteChat_def createNewChat_def)
qed


theorem active_pointer_valid_witness:
  "pointerValid exampleState
   \<and> pointerValid
        (runOps [Create (js ''c2'') (js ''t1''), Delete (js ''c2''), Delete (js ''c1'')] exampleState)
   \<and> activeChat (runOps [Create (js ''c2'') (js ''t1''), Delete (js ''c2'')] exampleState)
       = Some (js ''c1'')
   \<and> activeChat (deleteChat (js ''c1'') exampleState) = None
   \<and> activeChat (deleteChat (js ''c1'') (runOps [Create (js ''c2'') (js ''t1'')] exampleState))
       = Some (js ''c2'')
   \<and> deleteChat (js ''zz'') exampleState = exampleState
   \<and> chats (deleteChat (js ''c1'') exampleState) = []
   \<and> map chat_id
        (chats (runOps [Create (js ''c2'') (js ''t1''), Create (js ''c3'') (js ''t2''),
                        Delete (js ''c3'')] exampleState))
       = [js ''c2'', js ''c1'']
   \<and> activeChat (runOps [Create (js ''c2'') (js ''t1''), Create (js ''c3'') (js ''t2''),
                          Delete (js ''c3'')] exampleState)
       = Some (js ''c2'')"
proof -
  have v: "pointerValid exampleState"
    by (simp add: pointerValid_def exampleState_def exampleChat_def)
  show ?thesis
    using v
      active_pointer_valid [OF v, of "[Create (js ''c2'') (js ''t1''), Delete (js ''c2''), Delete (js ''c1'')]"]
      active_pointer_valid [OF v, of "[]"]
      active_pointer_valid [OF v, of "[Create (js ''c2'') (js ''t1''), Create (js ''c3'') (js ''t2'')]"]
    by (simp add: runOps_def createNewChat_def deleteChat_def exampleState_def exampleChat_def
          js_def)
qed

section \<open>SessionStore: appending to a missing chat\<close>

text \<open>
  C8, as stated: appending a message under an id that matches no chat fails with
  \<open>NotFoundError\<close>. It does not: with one chat \<open>c1\<close> in the collection and the id
  \<open>zz\<close>, both appends complete normally and return the collection as it was.
\<close>

theorem append_missing_chat_counterexample:
  "js ''zz'' \<notin> set (map chat_id [exampleChat])
   \<and> appendReply [exampleChat] (js ''zz'') (replyMessage examplePlatform exampleEnv (Inr (JString (js ''ok''))))
       = Inr [exampleChat]
   \<and> appendReply [exampleChat] (js ''zz'') (replyMessage examplePlatform exampleEnv (Inr (JString (js ''ok''))))
       \<noteq> Inl NotFoundError
   \<and> appendUserMessage [exampleChat] (js ''zz'') (userMessageOf exampleEnv exampleState) (js ''And APY?'')
       \<noteq> Inl NotFoundError"
  by (simp add: appendReply_def appendUserMessage_def chatIndexOf_def exampleChat_def js_def)

text \<open>
  C8, amended. For every id that matches no chat of the collection, both appends of
  \<open>sendMessage\<close> complete without raising anything and leave the collection unchanged.
\<close>

theorem append_missing_chat_silent:
  "chatId \<notin> set (map chat_id cs) \<Longrightarrow>
     appendUserMessage cs chatId userMessage str = Inr cs \<and> appendReply cs chatId reply = Inr cs"
  using chatIndexOf_None_iff [of cs chatId]
  by (simp add: appendUserMessage_def appendReply_def)

theorem append_missing_chat_silent_witness:
  "js ''zz'' \<notin> set (map chat_id [exampleChat])
   \<and> appendUserMessage [exampleChat] (js ''zz'') (userMessageOf exampleEnv exampleState) (js ''And APY?'')
       = Inr [exampleChat]
   \<and> appendReply [exampleChat] (js ''zz'') (replyMessage examplePlatform exampleEnv (Inl (ApiError 500)))
       = Inr [exampleChat]"
proof -
  have a: "js ''zz'' \<notin> set (map chat_id [exampleChat])"
    by (simp add: exampleChat_def js_def)
  show ?thesis
    using a append_missing_chat_silent [OF a] by simp
qed

section \<open>CompletionClient: request construction\<close>




section \<open>CompletionClient: streaming\<close>

text \<open>
  C1. For the lines
  \<^verbatim>\<open>data: {"choices":[{"delta":{"content":"A"}}]}\<close>,
  \<^verbatim>\<open>data: {"choices":[{"delta":{"content":"B"}}]}\<close> and
  \<^verbatim>\<open>data: [DONE]\<close>
  the reader shows \<open>A\<close>, then \<open>AB\<close>, each time the whole text so far; the
  \<open>[DONE]\<close> line shows nothing and changes nothing; and the accumulated text at the
  end is \<open>AB\<close>. The same holds for a response whose single chunk decodes to these
  three lines, and for a response of any number of chunks whose lines, chunk after chunk,
  are these three: the accumulator is kept from one read to the next.
\<close>

theorem streaming_accumulation:
  \<open>foldl (processLine pf) \<lparr>assistantContent = [], streamed = []\<rparr>
      [js ''data: {"choices":[{"delta":{"content":"A"}}]}'',
       js ''data: {"choices":[{"delta":{"content":"B"}}]}'',
       js ''data: [DONE]'']
     = \<lparr>assistantContent = js ''AB'', streamed = [js ''A'', js ''AB'']\<rparr>
   \<and> processLine pf st (js ''data: [DONE]'') = st
   \<and> (decode pf val
         = js ''data: {"choices":[{"delta":{"content":"A"}}]}\<newline>data: {"choices":[{"delta":{"content":"B"}}]}\<newline>data: [DONE]\<newline>''
        \<longrightarrow> readStreaming pf \<lparr>ok = True, status = 200, resp_body = Some ([val], Done)\<rparr>
              = (Inr (JString (js ''AB'')), [js ''A'', js ''AB'']))
   \<and> (concat (map (chunkLines pf) chunks)
         = [js ''data: {"choices":[{"delta":{"content":"A"}}]}'',
            js ''data: {"choices":[{"delta":{"content":"B"}}]}'',
            js ''data: [DONE]'']
        \<longrightarrow> readChunks pf \<lparr>assistantContent = [], streamed = []\<rparr> chunks
              = \<lparr>assistantContent = js ''AB'', streamed = [js ''A'', js ''AB'']\<rparr>
            \<and> readStreaming pf \<lparr>ok = True, status = 200, resp_body = Some (chunks, Done)\<rparr>
              = (Inr (JString (js ''AB'')), [js ''A'', js ''AB'']))\<close>
proof -
  have ab: "js ''A'' @ js ''B'' = js ''AB''"
    by (simp add: js_def)
  have lines: \<open>foldl (processLine pf) \<lparr>assistantContent = [], streamed = []\<rparr>
      [js ''data: {"choices":[{"delta":{"content":"A"}}]}'',
       js ''data: {"choices":[{"delta":{"content":"B"}}]}'',
       js ''data: [DONE]'']
     = \<lparr>assistantContent = js ''AB'', streamed = [js ''A'', js ''AB'']\<rparr>\<close>
    by (simp add: line_delta_A line_delta_B line_done ab)
  have stream: \<open>readStreaming pf \<lparr>ok = True, status = 200, resp_body = Some ([val], Done)\<rparr>
              = (Inr (JString (js ''AB'')), [js ''A'', js ''AB''])\<close>
    if d: \<open>decode pf val
         = js ''data: {"choices":[{"delta":{"content":"A"}}]}\<newline>data: {"choices":[{"delta":{"content":"B"}}]}\<newline>data: [DONE]\<newline>''\<close>
  proof -
    have \<open>chunkLines pf val
        = [js ''data: {"choices":[{"delta":{"content":"A"}}]}'',
           js ''data: {"choices":[{"delta":{"content":"B"}}]}'',
           js ''data: [DONE]'']\<close>
      unfolding chunkLines_def d by (rule three_lines_split)
    then have "processChunk pf \<lparr>assistantContent = [], streamed = []\<rparr> val
        = \<lparr>assistantContent = js ''AB'', streamed = [js ''A'', js ''AB'']\<rparr>"
      unfolding processChunk_def by (simp only: lines)
    then show ?thesis
      by (simp add: readStreaming_def readChunks_def)
  qed
  have chunked: \<open>readChunks pf \<lparr>assistantContent = [], streamed = []\<rparr> chunks
              = \<lparr>assistantContent = js ''AB'', streamed = [js ''A'', js ''AB'']\<rparr>
            \<and> readStreaming pf \<lparr>ok = True, status = 200, resp_body = Some (chunks, Done)\<rparr>
              = (Inr (JString (js ''AB'')), [js ''A'', js ''AB''])\<close>
    if c: \<open>concat (map (chunkLines pf) chunks)
         = [js ''data: {"choices":[{"delta":{"content":"A"}}]}'',
            js ''data: {"choices":[{"delta":{"content":"B"}}]}'',
            js ''data: [DONE]'']\<close>
  proof -
    have "readChunks pf \<lparr>assistantContent = [], streamed = []\<rparr> chunks
        = \<lparr>assistantContent = js ''AB'', streamed = [js ''A'', js ''AB'']\<rparr>"
      unfolding readChunks_lines c by (rule lines)
    then show ?thesis
      by (simp add: readStreaming_def)
  qed
  show ?thesis
    using lines stream line_done chunked by blast
qed


theorem streaming_accumulation_witness:
  \<open>decode examplePlatform
      (bytes ''data: {"choices":[{"delta":{"content":"A"}}]}\<newline>data: {"choices":[{"delta":{"content":"B"}}]}\<newline>data: [DONE]\<newline>'')
     = js ''data: {"choices":[{"delta":{"content":"A"}}]}\<newline>data: {"choices":[{"delta":{"content":"B"}}]}\<newline>data: [DONE]\<newline>''
   \<and> readStreaming examplePlatform
        \<lparr>ok = True, status = 200,
         resp_body = Some ([bytes ''data: {"choices":[{"delta":{"content":"A"}}]}\<newline>data: {"choices":[{"delta":{"content":"B"}}]}\<newline>data: [DONE]\<newline>''], Done)\<rparr>
       = (Inr (JString (js ''AB'')), [js ''A'', js ''AB''])
   \<and> (\<exists>s' c. sendMessage examplePlatform exampleStreamEnv exampleState = Inr s'
         \<and> currentChat s' = Some c
         \<and> map content (messages c)
             = [JString (js ''What is APR?''), JString (js ''A yearly rate.''),
                JString (js ''And APY?''), JString (js ''AB'')])
   \<and> readChunks examplePlatform \<lparr>assistantContent = [], streamed = []\<rparr>
        [bytes ''data: {"choices":[{"delta":{"content":"A"}}]}\<newline>'',
         bytes ''data: {"choices":[{"delta":{"content":"B"}}]}\<newline>'',
         bytes ''data: [DONE]\<newline>'']
       = \<lparr>assistantContent = js ''AB'', streamed = [js ''A'', js ''AB'']\<rparr>
   \<and> readStreaming examplePlatform
        \<lparr>ok = True, status = 200,
         resp_body = Some ([bytes ''data: {"choices":[{"delta":{"content":"A"}}]}\<newline>'',
                            bytes ''data: {"choices":[{"delta":{"content":"B"}}]}\<newline>data: [DONE]\<newline>''],
                           Done)\<rparr>
       = (Inr (JString (js ''AB'')), [js ''A'', js ''AB''])\<close>
proof -
  have d: \<open>decode examplePlatform
      (bytes ''data: {"choices":[{"delta":{"content":"A"}}]}\<newline>data: {"choices":[{"delta":{"content":"B"}}]}\<newline>data: [DONE]\<newline>'')
     = js ''data: {"choices":[{"delta":{"content":"A"}}]}\<newline>data: {"choices":[{"delta":{"content":"B"}}]}\<newline>data: [DONE]\<newline>''\<close>
    by (simp add: examplePlatform_def bytes_def js_def)
  have rs: \<open>readStreaming examplePlatform
        \<lparr>ok = True, status = 200,
         resp_body = Some ([bytes ''data: {"choices":[{"delta":{"content":"A"}}]}\<newline>data: {"choices":[{"delta":{"content":"B"}}]}\<newline>data: [DONE]\<newline>''], Done)\<rparr>
       = (Inr (JString (js ''AB'')), [js ''A'', js ''AB''])\<close>
    using d streaming_accumulation [of examplePlatform] by blast
  have r: "\<not> rejected exampleState"
    by (simp add: rejected_def trim_def isWhiteSpace_def exampleState_def js_def)
  have tc: "turnChat exampleStreamEnv exampleState = ([exampleChat], js ''c1'', Some (js ''c1''))"
    by (simp add: turnChat_def exampleState_def js_def)
  have idx: "chatIndexOf [exampleChat] (js ''c1'') = Some 0"
    by (simp add: chatIndexOf_def exampleChat_def)
  have st: "streaming (settings exampleState)"
    by (simp add: exampleState_def exampleSettings_def)
  have out: "turnOutcome examplePlatform exampleStreamEnv exampleState = Inr (JString (js ''AB''))"
    using tc idx st rs
    by (simp add: turnOutcome_def beginTurn_def appendUserMessage_def complete_def
          exampleStreamEnv_def)
  have cur: "currentChat (exampleState\<lparr>chats := [c], activeChat := Some (js ''c1''), inputValue := [],
        isLoading := False, streamingMessage := []\<rparr>) = Some c" if "chat_id c = js ''c1''" for c
    using that by (simp add: currentChat_def)
  define c where "c = exampleChat
      \<lparr>messages := messages exampleChat
         @ [userMessageOf exampleStreamEnv exampleState,
            replyMessage examplePlatform exampleStreamEnv (Inr (JString (js ''AB'')))],
       title := title exampleChat\<rparr>"
  have send: "sendMessage examplePlatform exampleStreamEnv exampleState
      = Inr (exampleState\<lparr>chats := [c], activeChat := Some (js ''c1''), inputValue := [],
               isLoading := False, streamingMessage := []\<rparr>)"
    using sendMessage_found [OF r tc idx, of examplePlatform]
    by (simp add: out c_def exampleChat_def)
  have id: "chat_id c = js ''c1''"
    by (simp add: c_def exampleChat_def)
  have msgs: "map content (messages c)
      = [JString (js ''What is APR?''), JString (js ''A yearly rate.''),
         JString (js ''And APY?''), JString (js ''AB'')]"
    by (simp add: c_def exampleChat_def userMessageOf_def replyMessage_def exampleState_def)
  have turn: "\<exists>s' c. sendMessage examplePlatform exampleStreamEnv exampleState = Inr s'
         \<and> currentChat s' = Some c
         \<and> map content (messages c)
             = [JString (js ''What is APR?''), JString (js ''A yearly rate.''),
                JString (js ''And APY?''), JString (js ''AB'')]"
    using send cur [OF id] msgs by (intro exI conjI)
  have three: \<open>concat (map (chunkLines examplePlatform)
        [bytes ''data: {"choices":[{"delta":{"content":"A"}}]}\<newline>'',
         bytes ''data: {"choices":[{"delta":{"content":"B"}}]}\<newline>'',
         bytes ''data: [DONE]\<newline>''])
      = [js ''data: {"choices":[{"delta":{"content":"A"}}]}'',
         js ''data: {"choices":[{"delta":{"content":"B"}}]}'',
         js ''data: [DONE]'']\<close>
    by (simp add: chunkLines_def examplePlatform_def bytes_def js_def trim_def isWhiteSpace_def)
  have two: \<open>concat (map (chunkLines examplePlatform)
        [bytes ''data: {"choices":[{"delta":{"content":"A"}}]}\<newline>'',
         bytes ''data: {"choices":[{"delta":{"content":"B"}}]}\<newline>data: [DONE]\<newline>''])
      = [js ''data: {"choices":[{"delta":{"content":"A"}}]}'',
         js ''data: {"choices":[{"delta":{"content":"B"}}]}'',
         js ''data: [DONE]'']\<close>
    by (simp add: chunkLines_def examplePlatform_def bytes_def js_def trim_def isWhiteSpace_def)
  have by_line: \<open>readChunks examplePlatform \<lparr>assistantContent = [], streamed = []\<rparr>
        [bytes ''data: {"choices":[{"delta":{"content":"A"}}]}\<newline>'',
         bytes ''data: {"choices":[{"delta":{"content":"B"}}]}\<newline>'',
         bytes ''data: [DONE]\<newline>'']
       = \<lparr>assistantContent = js ''AB'', streamed = [js ''A'', js ''AB'']\<rparr>\<close>
    using three streaming_accumulation [where pf = examplePlatform and chunks =
        \<open>[bytes ''data: {"choices":[{"delta":{"content":"A"}}]}\<newline>'',
          bytes ''data: {"choices":[{"delta":{"content":"B"}}]}\<newline>'',
          bytes ''data: [DONE]\<newline>'']\<close>]
    by blast
  have in_two: \<open>readStreaming examplePlatform
        \<lparr>ok = True, status = 200,
         resp_body = Some ([bytes ''data: {"choices":[{"delta":{"content":"A"}}]}\<newline>'',
                            bytes ''data: {"choices":[{"delta":{"content":"B"}}]}\<newline>data: [DONE]\<newline>''],
                           Done)\<rparr>
       = (Inr (JString (js ''AB'')), [js ''A'', js ''AB''])\<close>
    using two streaming_accumulation [where pf = examplePlatform and chunks =
        \<open>[bytes ''data: {"choices":[{"delta":{"content":"A"}}]}\<newline>'',
          bytes ''data: {"choices":[{"delta":{"content":"B"}}]}\<newline>data: [DONE]\<newline>'']\<close>]
    by blast
  from d rs turn by_line in_two show ?thesis
    by (intro conjI)
qed

text \<open>
  C2. A line with the \<open>data: \<close> prefix whose payload \<open>JSON.parse\<close> rejects is skipped:
  it leaves the reader's state as it was, so the state after a sequence of lines, and
  after a sequence of chunks, is the state obtained with the line removed. The lines
  after it contribute as they would without it.
\<close>

theorem malformed_line_skipped:
  assumes "startsWith line (js ''data: '')" and "JSON_parse (drop 6 line) = None"
  shows "processLine pf st line = st
    \<and> foldl (processLine pf) st (before @ line # after) = foldl (processLine pf) st (before @ after)
    \<and> (chunkLines pf val = before @ line # after \<and> chunkLines pf val' = before @ after
         \<longrightarrow> readChunks pf st (cs @ val # cs') = readChunks pf st (cs @ val' # cs'))"
proof -
  have skip: "processLine pf t line = t" for t
    using assms(2) by (simp add: processLine_def appendDelta_def Let_def)
  have chunk: "processChunk pf t val = processChunk pf t val'"
    if "chunkLines pf val = before @ line # after" "chunkLines pf val' = before @ after" for t
    using that skip by (simp add: processChunk_def)
  show ?thesis
    using skip chunk by (simp add: readChunks_def)
qed

theorem malformed_line_skipped_witness:
  \<open>startsWith (js ''data: {"choices":[{"del'') (js ''data: '')
   \<and> JSON_parse (drop 6 (js ''data: {"choices":[{"del'')) = None
   \<and> foldl (processLine examplePlatform) \<lparr>assistantContent = [], streamed = []\<rparr>
        [js ''data: {"choices":[{"delta":{"content":"A"}}]}'',
         js ''data: {"choices":[{"del'',
         js ''data: {"choices":[{"delta":{"content":"B"}}]}'']
       = \<lparr>assistantContent = js ''AB'', streamed = [js ''A'', js ''AB'']\<rparr>\<close>
proof -
  have p: \<open>startsWith (js ''data: {"choices":[{"del'') (js ''data: '')\<close>
    by (simp add: js_def startsWith_def)
  have n: \<open>JSON_parse (drop 6 (js ''data: {"choices":[{"del'')) = None\<close>
    by (simp add: json_eval)
  have ab: "js ''A'' @ js ''B'' = js ''AB''"
    by (simp add: js_def)
  have \<open>foldl (processLine examplePlatform) \<lparr>assistantContent = [], streamed = []\<rparr>
        ([js ''data: {"choices":[{"delta":{"content":"A"}}]}'']
         @ js ''data: {"choices":[{"del''
         # [js ''data: {"choices":[{"delta":{"content":"B"}}]}''])
       = foldl (processLine examplePlatform) \<lparr>assistantContent = [], streamed = []\<rparr>
        ([js ''data: {"choices":[{"delta":{"content":"A"}}]}'']
         @ [js ''data: {"choices":[{"delta":{"content":"B"}}]}''])\<close>
    using malformed_line_skipped [OF p n] by blast
  also have \<open>\<dots> = \<lparr>assistantContent = js ''AB'', streamed = [js ''A'', js ''AB'']\<rparr>\<close>
    by (simp add: line_delta_A line_delta_B ab)
  finally show ?thesis
    using p n by simp
qed

text \<open>
  C10. Each chunk is decoded and split into lines on its own; nothing is carried over
  to the next chunk. When the line
  \<^verbatim>\<open>data: {"choices":[{"delta":{"content":"A"}}]}\<close>
  arrives in one chunk the accumulated text is \<open>A\<close>; when the same bytes arrive cut in
  two after \<^verbatim>\<open>{"con\<close>, neither chunk changes the reader's state and the accumulated
  text is empty.
\<close>

theorem no_carry_over_between_chunks:
  assumes "decodesAscii pf"
  shows \<open>concat [bytes ''data: {"choices":[{"delta":{"con'', bytes ''tent":"A"}}]}\<newline>'']
       = concat [bytes ''data: {"choices":[{"delta":{"content":"A"}}]}\<newline>'']
    \<and> assistantContent (readChunks pf \<lparr>assistantContent = [], streamed = []\<rparr>
          [bytes ''data: {"choices":[{"delta":{"content":"A"}}]}\<newline>'']) = js ''A''
    \<and> assistantContent (readChunks pf \<lparr>assistantContent = [], streamed = []\<rparr>
          [bytes ''data: {"choices":[{"delta":{"con'', bytes ''tent":"A"}}]}\<newline>'']) = []
    \<and> processChunk pf st (bytes ''data: {"choices":[{"delta":{"con'') = st
    \<and> processChunk pf st (bytes ''tent":"A"}}]}\<newline>'') = st\<close>
proof -
  have ascii: "decode pf bs = map ucast bs" if "list_all (\<lambda>b. b < 0x80) bs" for bs
    using assms that by (simp add: decodesAscii_def)
  have whole: \<open>decode pf (bytes ''data: {"choices":[{"delta":{"content":"A"}}]}\<newline>'')
      = js ''data: {"choices":[{"delta":{"content":"A"}}]}\<newline>''\<close>
    by (subst ascii) (simp_all add: bytes_def js_def)
  have first: \<open>decode pf (bytes ''data: {"choices":[{"delta":{"con'')
      = js ''data: {"choices":[{"delta":{"con''\<close>
    by (subst ascii) (simp_all add: bytes_def js_def)
  have second: \<open>decode pf (bytes ''tent":"A"}}]}\<newline>'') = js ''tent":"A"}}]}\<newline>''\<close>
    by (subst ascii) (simp_all add: bytes_def js_def)
  have lw: \<open>chunkLines pf (bytes ''data: {"choices":[{"delta":{"content":"A"}}]}\<newline>'')
      = [js ''data: {"choices":[{"delta":{"content":"A"}}]}'']\<close>
    unfolding chunkLines_def whole by (simp add: js_def trim_def isWhiteSpace_def)
  have l1: \<open>chunkLines pf (bytes ''data: {"choices":[{"delta":{"con'')
      = [js ''data: {"choices":[{"delta":{"con'']\<close>
    unfolding chunkLines_def first by (simp add: js_def trim_def isWhiteSpace_def)
  have l2: \<open>chunkLines pf (bytes ''tent":"A"}}]}\<newline>'') = [js ''tent":"A"}}]}'']\<close>
    unfolding chunkLines_def second by (simp add: js_def trim_def isWhiteSpace_def)
  have bad: \<open>JSON_parse (drop 6 (js ''data: {"choices":[{"delta":{"con'')) = None\<close>
    by (simp add: json_eval)
  have c1: \<open>processChunk pf t (bytes ''data: {"choices":[{"delta":{"con'') = t\<close> for t
    unfolding processChunk_def l1 using line_malformed [OF bad] by simp
  have np: \<open>\<not> startsWith (js ''tent":"A"}}]}'') (js ''data: '')\<close>
    by (simp add: js_def startsWith_def)
  have c2: \<open>processChunk pf t (bytes ''tent":"A"}}]}\<newline>'') = t\<close> for t
    unfolding processChunk_def l2 using line_without_prefix [OF np] by simp
  have cw: \<open>assistantContent (processChunk pf \<lparr>assistantContent = [], streamed = []\<rparr>
      (bytes ''data: {"choices":[{"delta":{"content":"A"}}]}\<newline>'')) = js ''A''\<close>
    unfolding processChunk_def lw by (simp add: line_delta_A)
  have cat: \<open>concat [bytes ''data: {"choices":[{"delta":{"con'', bytes ''tent":"A"}}]}\<newline>'']
       = concat [bytes ''data: {"choices":[{"delta":{"content":"A"}}]}\<newline>'']\<close>
    by (simp add: bytes_def)
  show ?thesis
    using cat cw c1 c2 by (simp add: readChunks_def)
qed

theorem no_carry_over_between_chunks_witness:
  \<open>decodesAscii examplePlatform
   \<and> assistantContent (readChunks examplePlatform \<lparr>assistantContent = [], streamed = []\<rparr>
          [bytes ''data: {"choices":[{"delta":{"content":"A"}}]}\<newline>''])
       \<noteq> assistantContent (readChunks examplePlatform \<lparr>assistantContent = [], streamed = []\<rparr>
          [bytes ''data: {"choices":[{"delta":{"con'', bytes ''tent":"A"}}]}\<newline>''])\<close>
proof -
  have a: "decodesAscii examplePlatform"
    by (simp add: decodesAscii_def examplePlatform_def)
  have "js ''A'' \<noteq> []"
    by (simp add: js_def)
  then show ?thesis
    using a no_carry_over_between_chunks [OF a] by simp
qed


section \<open>SessionController: a turn that fails\<close>




section \<open>SessionStore: titles\<close>

text \<open>
  C6. From a state in which every chat is titled, every sequence of actions ends
  normally in a state in which every chat with at least one message has for title the
  first 50 code units of the content of its first user message, followed by \<open>...\<close>
  exactly when the content is longer than 50. Appending a reply never changes a title,
  and appending a user message to a chat that already has a message does not either.
\<close>

theorem title_from_first_user_message:
  assumes "titlesValid s"
  shows "(\<exists>s'. runActions acts s = Inr s'
            \<and> (\<forall>c\<in>set (chats s'). messages c \<noteq> [] \<longrightarrow>
                  (\<exists>m t. find (\<lambda>m. role m = User) (messages c) = Some m
                     \<and> content m = JString t
                     \<and> title c = take 50 t @ (if length t > 50 then js ''...'' else []))))
    \<and> (\<forall>cs chatId reply cs'.
           appendReply cs chatId reply = Inr cs' \<longrightarrow> map title cs' = map title cs)
    \<and> (\<forall>cs chatId userMessage str cs' i.
           appendUserMessage cs chatId userMessage str = Inr cs'
             \<and> chatIndexOf cs chatId = Some i \<and> messages (cs ! i) \<noteq> []
           \<longrightarrow> map title cs' = map title cs)"
proof -
  obtain s' where run: "runActions acts s = Inr s'" and v: "titlesValid s'"
    using runActions_titles [OF assms] by blast
  have inv: "\<forall>c\<in>set (chats s'). messages c \<noteq> [] \<longrightarrow>
          (\<exists>m t. find (\<lambda>m. role m = User) (messages c) = Some m
             \<and> content m = JString t
             \<and> title c = take 50 t @ (if length t > 50 then js ''...'' else []))"
    using v by (simp add: titlesValid_def list_all_iff titled_iff)
  have first: "\<exists>s'. runActions acts s = Inr s'
            \<and> (\<forall>c\<in>set (chats s'). messages c \<noteq> [] \<longrightarrow>
                  (\<exists>m t. find (\<lambda>m. role m = User) (messages c) = Some m
                     \<and> content m = JString t
                     \<and> title c = take 50 t @ (if length t > 50 then js ''...'' else [])))"
    using run inv by (intro exI [of _ s'] conjI)
  have second: "\<forall>cs chatId reply cs'.
           appendReply cs chatId reply = Inr cs' \<longrightarrow> map title cs' = map title cs"
    by (intro allI impI) (rule appendReply_titles)
  have third: "\<forall>cs chatId userMessage str cs' i.
           appendUserMessage cs chatId userMessage str = Inr cs'
             \<and> chatIndexOf cs chatId = Some i \<and> messages (cs ! i) \<noteq> []
           \<longrightarrow> map title cs' = map title cs"
    by (intro allI impI) (elim conjE, rule appendUserMessage_titles)
  from first second third show ?thesis
    by (intro conjI)
qed


theorem title_from_first_user_message_witness:
  "titlesValid (initialState exampleSettings)
   \<and> (\<exists>s'. runActions
           [TypeInput (js ''Please explain the difference between APR and the interest rate''),
            Send examplePlatform exampleEnv,
            TypeInput (js ''Thanks''),
            Send examplePlatform exampleEnv]
           (initialState exampleSettings) = Inr s'
         \<and> map title (chats s') = [js ''Please explain the difference between APR and the ...'']
         \<and> map (\<lambda>c. map role (messages c)) (chats s') = [[User, Assistant, User, Assistant]])"
proof -
  have v: "titlesValid (initialState exampleSettings)"
    by (simp add: titlesValid_def initialState_def)
  have run: "\<exists>s'. runActions
           [TypeInput (js ''Please explain the difference between APR and the interest rate''),
            Send examplePlatform exampleEnv,
            TypeInput (js ''Thanks''),
            Send examplePlatform exampleEnv]
           (initialState exampleSettings) = Inr s'
         \<and> map title (chats s') = [js ''Please explain the difference between APR and the ...'']
         \<and> map (\<lambda>c. map role (messages c)) (chats s') = [[User, Assistant, User, Assistant]]"
    by (simp add: turn_eval initialState_def exampleEnv_def exampleSettings_def js_def)
  show ?thesis
    using v run title_from_first_user_message [OF v] by blast
qed

end
